theory Spec2Isabelle
  imports Complex_Main "HOL-Library.Word" "HOL-Library.AList"
    "HOL-Library.Char_ord" "HOL-Library.List_Lexorder"
begin

section \<open>Python values, exceptions and the collaborator objects\<close>

text \<open>
  The track database of \<^verbatim>\<open>ml_tools/trackdatabase.py\<close> keeps clips and tracks in an
  HDF5 file through h5py. Exceptions are values of \<open>error\<close>; an operation returns
  \<open>Inl e\<close> where the Python raises.
\<close>

datatype error = KeyError | ValueError | TypeError | AttributeError | OSError | OverflowError

text \<open>Scalar Python values that reach the database through a tracker or a track record.\<close>

datatype pyval = PNone | PBool bool | PInt int | PFloat real | PStr string

text \<open>Truth value of a scalar, as the operator \<^verbatim>\<open>or\<close> tests it.\<close>

fun truthy :: "pyval \<Rightarrow> bool" where
  "truthy PNone = False"
| "truthy (PBool b) = b"
| "truthy (PInt i) = (i \<noteq> 0)"
| "truthy (PFloat x) = (x \<noteq> 0)"
| "truthy (PStr s) = (s \<noteq> [])"

definition py_or :: "pyval \<Rightarrow> pyval \<Rightarrow> pyval" where
  "py_or a b = (if truthy a then a else b)"

text \<open>\<^verbatim>\<open>d.get(key, default)\<close> on a dictionary kept as an association list.\<close>

definition dict_get :: "(string \<times> pyval) list \<Rightarrow> string \<Rightarrow> pyval \<Rightarrow> pyval" where
  "dict_get d k dflt = (case map_of d k of None \<Rightarrow> dflt | Some v \<Rightarrow> v)"

text \<open>A \<^verbatim>\<open>datetime\<close> is represented by its ISO-8601 rendering.\<close>

datatype datetime = Datetime string

text \<open>The tracker object read by \<^verbatim>\<open>create_clip\<close>.\<close>

record tracker =
  source_file :: pyval
  video_start_time :: "datetime option"
  threshold :: pyval
  stats :: "(string \<times> pyval) list"

text \<open>One entry of a track's \<^verbatim>\<open>bounds_history\<close>.\<close>

record bounds =
  left_b :: int
  top_b :: int
  right_b :: int
  bottom_b :: int
  mass_b :: int

text \<open>
  The track record read by \<^verbatim>\<open>add_track\<close>; \<open>get_stats\<close> holds the items of
  \<^verbatim>\<open>track.get_stats()._asdict()\<close>.
\<close>

record track =
  id_t :: pyval
  tag :: pyval
  start_time :: "datetime option"
  end_time :: "datetime option"
  get_stats :: "(string \<times> pyval) list"
  bounds_history :: "bounds list"

text \<open>A numpy array of dtype int16: its shape and its elements in row-major order.\<close>

record ndarray =
  shape :: "nat list"
  elems :: "16 word list"

section \<open>The HDF5 store as h5py presents it\<close>

text \<open>
  An attribute holds a scalar, an int32 vector or an int16 matrix (a list of rows).
\<close>

datatype attr = Scalar pyval | Int32Array "32 word list" | Int16Array "16 word list list"

type_synonym attrs = "(string \<times> attr) list"

record dataset =
  dshape :: "nat list"
  ddata :: "16 word list"
  dattrs :: attrs

text \<open>A clip node: a group with attributes whose members are the track datasets.\<close>

record group =
  gattrs :: attrs
  members :: "(string \<times> dataset) list"

type_synonym clips = "(string \<times> group) list"

text \<open>
  The root of an open file: \<open>None\<close> when it has no member \<^verbatim>\<open>clips\<close>, otherwise the
  members of that group. Clip and track ids are strings, on which \<^verbatim>\<open>str\<close> is the
  identity; the tables describe h5py for the ids that are link names (\<open>link_name\<close>
  below).
\<close>

type_synonym root = "clips option"

text \<open>
  The names HDF5 takes for one link: not empty, not \<^verbatim>\<open>.\<close>, without the path separator
  and without a NUL character. For other strings h5py resolves a path or refuses the
  name; the properties of calls that create a node or a dataset are stated for link
  names.
\<close>

definition link_name :: "string \<Rightarrow> bool" where
  "link_name name =
     (name \<noteq> [] \<and> name \<noteq> ''.'' \<and> CHR ''/'' \<notin> set name \<and> CHR 0x00 \<notin> set name)"

text \<open>
  What the database path holds: nothing, a file that is not HDF5, or an HDF5 file.
\<close>

datatype backing = Missing | NotHDF5 | H5 root

datatype mode = Mode_r | Mode_a | Mode_w

text \<open>
  \<^verbatim>\<open>h5py.File(name, mode)\<close>: \<^verbatim>\<open>'r'\<close> needs an existing HDF5 file, \<^verbatim>\<open>'a'\<close> creates an empty one
  where the path holds nothing, \<^verbatim>\<open>'w'\<close> always starts from an empty file.
\<close>

fun File :: "backing \<Rightarrow> mode \<Rightarrow> error + root" where
  "File b Mode_w = Inr None"
| "File Missing Mode_r = Inl OSError"
| "File Missing Mode_a = Inr None"
| "File NotHDF5 m = Inl OSError"
| "File (H5 r) m = Inr r"

text \<open>\<^verbatim>\<open>f['clips']\<close>\<close>

definition getitem_clips :: "root \<Rightarrow> error + clips" where
  "getitem_clips f = (case f of None \<Rightarrow> Inl KeyError | Some clips \<Rightarrow> Inr clips)"

text \<open>\<^verbatim>\<open>group[name]\<close> and \<^verbatim>\<open>name in group\<close> on a table of links.\<close>

definition getitem :: "(string \<times> 'a) list \<Rightarrow> string \<Rightarrow> error + 'a" where
  "getitem g name = (case map_of g name of None \<Rightarrow> Inl KeyError | Some x \<Rightarrow> Inr x)"

definition contains :: "(string \<times> 'a) list \<Rightarrow> string \<Rightarrow> bool" where
  "contains g name = (map_of g name \<noteq> None)"

text \<open>
  Iterating a group yields its member names in ascending order: the file is created
  without link-creation tracking, so h5py walks the name index.
\<close>

definition names :: "(string \<times> 'a) list \<Rightarrow> string list" where
  "names g = sort (remdups (map fst g))"

text \<open>\<^verbatim>\<open>del group[name]\<close>; the caller has checked that the name is there.\<close>

definition delitem :: "(string \<times> 'a) list \<Rightarrow> string \<Rightarrow> (string \<times> 'a) list" where
  "delitem g name = AList.delete name g"

text \<open>\<^verbatim>\<open>group.create_group(name)\<close>: h5py raises ValueError when the name is taken.\<close>

definition create_group :: "clips \<Rightarrow> string \<Rightarrow> error + clips" where
  "create_group g name =
     (if contains g name then Inl ValueError
      else Inr (g @ [(name, \<lparr>gattrs = [], members = []\<rparr>)]))"

text \<open>
  \<^verbatim>\<open>group.create_dataset(name, dims, chunks=chunks, dtype=np.int16, ...)\<close>: h5py raises
  ValueError when a chunk dimension is zero or larger than the dataset's (the dataset
  is not resizable) and when the name is taken. The new dataset is zero-filled.
  Compression options do not change what is read back and are not represented.
\<close>

definition chunks_ok :: "nat list \<Rightarrow> nat list \<Rightarrow> bool" where
  "chunks_ok dims chunks =
     (length chunks = length dims \<and> list_all2 (\<lambda>c d. 0 < c \<and> c \<le> d) chunks dims)"

definition create_dataset ::
  "group \<Rightarrow> string \<Rightarrow> nat list \<Rightarrow> nat list \<Rightarrow> error + dataset" where
  "create_dataset node name dims chunks =
     (if \<not> chunks_ok dims chunks then Inl ValueError
      else if contains (members node) name then Inl ValueError
      else Inr \<lparr>dshape = dims, ddata = replicate (prod_list dims) 0, dattrs = []\<rparr>)"

text \<open>
  The exception h5py raises for a scalar it cannot store: there is no HDF5 type for None
  nor for an integer that fits neither a signed nor an unsigned 64-bit integer
  (TypeError), and a string with a NUL character is refused (ValueError).
\<close>

fun refusal :: "pyval \<Rightarrow> error option" where
  "refusal PNone = Some TypeError"
| "refusal (PBool b) = None"
| "refusal (PInt i) = (if - (2 ^ 63) \<le> i \<and> i < 2 ^ 64 then None else Some TypeError)"
| "refusal (PFloat x) = None"
| "refusal (PStr s) = (if CHR 0x00 \<in> set s then Some ValueError else None)"

text \<open>\<^verbatim>\<open>attrs[name] = value\<close>\<close>

definition attr_set :: "string \<Rightarrow> attr \<Rightarrow> attrs \<Rightarrow> error + attrs" where
  "attr_set name v a =
     (case v of
        Scalar x \<Rightarrow>
          (case refusal x of Some e \<Rightarrow> Inl e | None \<Rightarrow> Inr (AList.update name v a))
      | Int32Array xs \<Rightarrow> Inr (AList.update name v a)
      | Int16Array rows \<Rightarrow> Inr (AList.update name v a))"

text \<open>
  A run of assignments \<^verbatim>\<open>stats[name] = expr\<close>: an expression that raises, or a value
  h5py refuses, stops the run and keeps the attributes written before it.
\<close>

fun write_attrs :: "(string \<times> (error + attr)) list \<Rightarrow> attrs \<Rightarrow> error option \<times> attrs" where
  "write_attrs [] a = (None, a)"
| "write_attrs ((name, Inl e) # rest) a = (Some e, a)"
| "write_attrs ((name, Inr v) # rest) a =
     (case attr_set name v a of
        Inl e \<Rightarrow> (Some e, a)
      | Inr a' \<Rightarrow> write_attrs rest a')"

text \<open>\<^verbatim>\<open>t.isoformat()\<close>; on None the attribute lookup raises AttributeError.\<close>

definition isoformat :: "datetime option \<Rightarrow> error + attr" where
  "isoformat t =
     (case t of None \<Rightarrow> Inl AttributeError | Some (Datetime s) \<Rightarrow> Inr (Scalar (PStr s)))"

text \<open>
  \<^verbatim>\<open>dataset[name]\<close> with a string selects a field of a compound type; the datasets of
  this store have dtype int16, for which h5py raises ValueError.
\<close>

definition dataset_getitem_field :: "dataset \<Rightarrow> string \<Rightarrow> error + ndarray" where
  "dataset_getitem_field d name = Inl ValueError"

text \<open>
  \<^verbatim>\<open>a[start:end]\<close> along the first axis: None is the start or the end, a negative
  bound counts from the end, and bounds are clamped.
\<close>

definition slice_bound :: "nat \<Rightarrow> int option \<Rightarrow> nat \<Rightarrow> nat" where
  "slice_bound n b dflt =
     (case b of
        None \<Rightarrow> dflt
      | Some i \<Rightarrow> (if i < 0 then nat (max 0 (int n + i)) else min (nat i) n))"

definition getitem_slice :: "ndarray \<Rightarrow> int option \<Rightarrow> int option \<Rightarrow> ndarray" where
  "getitem_slice a start_frame end_frame =
     (let n = hd (shape a);
          inner = prod_list (tl (shape a));
          s = slice_bound n start_frame 0;
          e = slice_bound n end_frame n
      in \<lparr>shape = (e - s) # tl (shape a),
          elems = take ((e - s) * inner) (drop (s * inner) (elems a))\<rparr>)"

section \<open>The lock and the scoped session\<close>

text \<open>
  The world of one process: whether the module's lock \<open>hdf5_lock\<close> is held, and what
  the database path holds.
\<close>

record world =
  hdf5_lock :: bool
  backing :: backing

text \<open>
  \<^verbatim>\<open>with HDF5Manager(db, mode) as f: body\<close>. \<^verbatim>\<open>__enter__\<close> acquires the lock and then opens
  the file; \<^verbatim>\<open>__exit__\<close> closes the file and releases the lock, also when the body raised.
  An operation that finds the lock held never returns (\<open>None\<close>). When opening raises,
  \<^verbatim>\<open>__exit__\<close> does not run. What the body wrote before raising is in the file.
\<close>

definition HDF5Manager ::
  "mode \<Rightarrow> (root \<Rightarrow> (error + 'a) \<times> root) \<Rightarrow> world \<Rightarrow> ((error + 'a) \<times> world) option" where
  "HDF5Manager m body w =
     (if hdf5_lock w then None
      else (case File (backing w) m of
              Inl e \<Rightarrow> Some (Inl e, w\<lparr>hdf5_lock := True\<rparr>)
            | Inr f \<Rightarrow>
                (case body f of
                   (r, f') \<Rightarrow> Some (r, w\<lparr>hdf5_lock := False, backing := H5 f'\<rparr>))))"

text \<open>A body that only reads.\<close>

definition reading :: "(root \<Rightarrow> error + 'a) \<Rightarrow> root \<Rightarrow> (error + 'a) \<times> root" where
  "reading g f = (g f, f)"

section \<open>TrackDatabase\<close>

text \<open>\<^verbatim>\<open>__init__\<close>: creates a database with an empty \<^verbatim>\<open>clips\<close> group where the path holds nothing.\<close>

definition TrackDatabase :: "world \<Rightarrow> world" where
  "TrackDatabase w =
     (if backing w = Missing
      then (case File (backing w) Mode_w of
              Inl e \<Rightarrow> w
            | Inr f \<Rightarrow> w\<lparr>backing := H5 (Some [])\<rparr>)
      else w)"

definition has_clip_body :: "string \<Rightarrow> root \<Rightarrow> error + bool" where
  "has_clip_body clip_id f =
     (case getitem_clips f of
        Inl e \<Rightarrow> Inl e
      | Inr clips \<Rightarrow>
          (if contains clips clip_id
           then (case getitem clips clip_id of
                   Inl e \<Rightarrow> Inl e
                 | Inr node \<Rightarrow> Inr (contains (gattrs node) ''finished''))
           else Inr False))"

definition has_clip :: "world \<Rightarrow> string \<Rightarrow> ((error + bool) \<times> world) option" where
  "has_clip w clip_id = HDF5Manager Mode_r (reading (has_clip_body clip_id)) w"

text \<open>The attribute assignments of \<^verbatim>\<open>create_clip\<close>, in the order of the source.\<close>

definition tracker_items :: "tracker \<Rightarrow> (string \<times> (error + attr)) list" where
  "tracker_items t =
     [(''filename'', Inr (Scalar (source_file t))),
      (''start_time'', isoformat (video_start_time t)),
      (''threshold'', Inr (Scalar (threshold t))),
      (''confidence'', Inr (Scalar (py_or (dict_get (stats t) ''confidence'' (PFloat 0)) (PFloat 0)))),
      (''trap'', Inr (Scalar (py_or (dict_get (stats t) ''trap'' (PStr [])) (PStr [])))),
      (''event'', Inr (Scalar (py_or (dict_get (stats t) ''event'' (PStr [])) (PStr [])))),
      (''average_background_delta'', Inr (Scalar (dict_get (stats t) ''average_background_delta'' (PInt 0)))),
      (''mean_temp'', Inr (Scalar (dict_get (stats t) ''mean_temp'' (PInt 0)))),
      (''max_temp'', Inr (Scalar (dict_get (stats t) ''max_temp'' (PInt 0)))),
      (''min_temp'', Inr (Scalar (dict_get (stats t) ''min_temp'' (PInt 0))))]"

definition finished_attr :: attr where
  "finished_attr = Scalar (PBool True)"

definition create_clip_body ::
  "string \<Rightarrow> tracker option \<Rightarrow> bool \<Rightarrow> root \<Rightarrow> (error + unit) \<times> root" where
  "create_clip_body clip_id tr overwrite f =
     (case getitem_clips f of
        Inl e \<Rightarrow> (Inl e, f)
      | Inr clips \<Rightarrow>
          (let clips1 = (if overwrite \<and> contains clips clip_id
                         then delitem clips clip_id else clips)
           in (case create_group clips1 clip_id of
                 Inl e \<Rightarrow> (Inl e, Some clips1)
               | Inr clips2 \<Rightarrow>
                   (case (case tr of None \<Rightarrow> (None, [])
                          | Some t \<Rightarrow> write_attrs (tracker_items t) []) of
                      (Some e, a) \<Rightarrow>
                        (Inl e, Some (AList.update clip_id \<lparr>gattrs = a, members = []\<rparr> clips2))
                    | (None, a) \<Rightarrow>
                        (Inr (), Some (AList.update clip_id
                           \<lparr>gattrs = AList.update ''finished'' finished_attr a,
                            members = []\<rparr> clips2))))))"

definition create_clip ::
  "world \<Rightarrow> string \<Rightarrow> tracker option \<Rightarrow> bool \<Rightarrow> ((error + unit) \<times> world) option" where
  "create_clip w clip_id tr overwrite = HDF5Manager Mode_a (create_clip_body clip_id tr overwrite) w"

definition get_all_track_ids_body :: "root \<Rightarrow> error + (string \<times> string) list" where
  "get_all_track_ids_body f =
     (case getitem_clips f of
        Inl e \<Rightarrow> Inl e
      | Inr clips \<Rightarrow>
          Inr (concat (map (\<lambda>clip.
                 map (\<lambda>track. (clip, track))
                   (case getitem clips clip of Inl e \<Rightarrow> [] | Inr node \<Rightarrow> names (members node)))
               (names clips))))"

definition get_all_track_ids :: "world \<Rightarrow> ((error + (string \<times> string) list) \<times> world) option" where
  "get_all_track_ids w = HDF5Manager Mode_r (reading get_all_track_ids_body) w"

text \<open>\<^verbatim>\<open>attrs.items()\<close>: h5py lists the attributes of a node by name.\<close>

definition items :: "attrs \<Rightarrow> attrs" where
  "items a = sort_key fst a"

text \<open>The loop \<^verbatim>\<open>for key, value in attrs.items(): result[key] = value\<close>.\<close>

definition items_dict :: "attrs \<Rightarrow> attrs" where
  "items_dict a = fold (\<lambda>(key, v) result. AList.update key v result) (items a) []"

definition get_track_meta_body :: "string \<Rightarrow> string \<Rightarrow> root \<Rightarrow> error + attrs" where
  "get_track_meta_body clip_id track_id f =
     (case getitem_clips f of
        Inl e \<Rightarrow> Inl e
      | Inr clips \<Rightarrow>
          (case getitem clips clip_id of
             Inl e \<Rightarrow> Inl e
           | Inr node \<Rightarrow>
               (case getitem (members node) track_id of
                  Inl e \<Rightarrow> Inl e
                | Inr d \<Rightarrow> Inr (items_dict (dattrs d)))))"

definition get_track_meta :: "world \<Rightarrow> string \<Rightarrow> string \<Rightarrow> ((error + attrs) \<times> world) option" where
  "get_track_meta w clip_id track_id = HDF5Manager Mode_r (reading (get_track_meta_body clip_id track_id)) w"

definition get_clip_meta_body :: "string \<Rightarrow> root \<Rightarrow> error + attrs" where
  "get_clip_meta_body clip_id f =
     (case getitem_clips f of
        Inl e \<Rightarrow> Inl e
      | Inr clips \<Rightarrow>
          (case getitem clips clip_id of
             Inl e \<Rightarrow> Inl e
           | Inr node \<Rightarrow> Inr (items_dict (gattrs node))))"

definition get_clip_meta :: "world \<Rightarrow> string \<Rightarrow> ((error + attrs) \<times> world) option" where
  "get_clip_meta w clip_id = HDF5Manager Mode_r (reading (get_clip_meta_body clip_id)) w"

definition get_track_body ::
  "string \<Rightarrow> string \<Rightarrow> int option \<Rightarrow> int option \<Rightarrow> root \<Rightarrow> error + ndarray" where
  "get_track_body clip_id track_id start_frame end_frame f =
     (case getitem_clips f of
        Inl e \<Rightarrow> Inl e
      | Inr clips \<Rightarrow>
          (case getitem clips clip_id of
             Inl e \<Rightarrow> Inl e
           | Inr node \<Rightarrow>
               (case getitem (members node) track_id of
                  Inl e \<Rightarrow> Inl e
                | Inr track_node \<Rightarrow>
                    (case dataset_getitem_field track_node track_id of
                       Inl e \<Rightarrow> Inl e
                     | Inr dset \<Rightarrow> Inr (getitem_slice dset start_frame end_frame)))))"

definition get_track ::
  "world \<Rightarrow> string \<Rightarrow> string \<Rightarrow> int option \<Rightarrow> int option \<Rightarrow> ((error + ndarray) \<times> world) option" where
  "get_track w clip_id track_id start_frame end_frame =
     HDF5Manager Mode_r (reading (get_track_body clip_id track_id start_frame end_frame)) w"

text \<open>
  \<^verbatim>\<open>np.int32([...])\<close> and \<^verbatim>\<open>np.int16([[...], ...])\<close>: numpy raises OverflowError for a value
  outside the target type (before numpy 2 such a value wrapped around).
\<close>

definition in_range :: "nat \<Rightarrow> int \<Rightarrow> bool" where
  "in_range bits i = (- (2 ^ (bits - 1)) \<le> i \<and> i < 2 ^ (bits - 1))"

definition np_int32 :: "int list \<Rightarrow> error + attr" where
  "np_int32 xs =
     (if list_all (in_range 32) xs then Inr (Int32Array (map word_of_int xs))
      else Inl OverflowError)"

definition np_int16 :: "int list list \<Rightarrow> error + attr" where
  "np_int16 rows =
     (if list_all (list_all (in_range 16)) rows then Inr (Int16Array (map (map word_of_int) rows))
      else Inl OverflowError)"

text \<open>The attribute assignments of \<^verbatim>\<open>add_track\<close>, in the order of the source.\<close>

definition track_items :: "track \<Rightarrow> (string \<times> (error + attr)) list" where
  "track_items t =
     [(''id'', Inr (Scalar (id_t t))),
      (''tag'', Inr (Scalar (tag t))),
      (''start_time'', isoformat (start_time t)),
      (''end_time'', isoformat (end_time t))]
     @ map (\<lambda>(name, v). (name, Inr (Scalar v))) (get_stats t)
     @ [(''mass_history'', np_int32 (map mass_b (bounds_history t))),
        (''bounds_history'', np_int16 (map (\<lambda>b. [left_b b, top_b b, right_b b, bottom_b b])
            (bounds_history t)))]"

definition add_track_body ::
  "string \<Rightarrow> string \<Rightarrow> ndarray \<Rightarrow> track option \<Rightarrow> root \<Rightarrow> (error + unit) \<times> root" where
  "add_track_body clip_id track_id track_data tr f =
     (case shape track_data of
        [frames, channels, height, width] \<Rightarrow>
          (case getitem_clips f of
             Inl e \<Rightarrow> (Inl e, f)
           | Inr clips \<Rightarrow>
               (case getitem clips clip_id of
                  Inl e \<Rightarrow> (Inl e, f)
                | Inr clip_node \<Rightarrow>
                    (case create_dataset clip_node track_id
                            [frames, channels, height, width] [9, 1, height, width] of
                       Inl e \<Rightarrow> (Inl e, f)
                     | Inr dset \<Rightarrow>
                         (case (case tr of None \<Rightarrow> (None, [])
                                | Some t \<Rightarrow> write_attrs (track_items t) []) of
                            (err, a) \<Rightarrow>
                              (let dset1 = dset\<lparr>ddata := elems track_data, dattrs := a\<rparr>;
                                   node1 = clip_node\<lparr>members := members clip_node @ [(track_id, dset1)]\<rparr>
                               in (case err of
                                     Some e \<Rightarrow> (Inl e, Some (AList.update clip_id node1 clips))
                                   | None \<Rightarrow>
                                       (Inr (), Some (AList.update clip_id
                                          (node1\<lparr>gattrs := AList.update ''finished'' finished_attr (gattrs node1)\<rparr>)
                                          clips))))))))
      | _ \<Rightarrow> (Inl ValueError, f))"

text \<open>
  The shape is unpacked before the session opens, so an array that is not
  4-dimensional raises without touching the lock. The parameter \<^verbatim>\<open>opts\<close> only selects
  the compression filters of the new dataset: both branches create the same dataset as
  far as reading it back goes, and the parameter is left out.
\<close>

definition add_track ::
  "world \<Rightarrow> string \<Rightarrow> string \<Rightarrow> ndarray \<Rightarrow> track option \<Rightarrow> ((error + unit) \<times> world) option" where
  "add_track w clip_id track_id track_data tr =
     (if length (shape track_data) = 4
      then HDF5Manager Mode_a (add_track_body clip_id track_id track_data tr) w
      else Some (Inl ValueError, w))"

section \<open>Histories of calls\<close>





section \<open>Notions used to state the properties\<close>

text \<open>The (clip, track) pairs whose dataset is in the store.\<close>

definition stored_pairs :: "clips \<Rightarrow> (string \<times> string) set" where
  "stored_pairs clips =
     {(c, t). \<exists>node. map_of clips c = Some node \<and> contains (members node) t}"

text \<open>The pairs \<open>get_all_track_ids\<close> returns.\<close>

definition listed :: "world \<Rightarrow> (string \<times> string) set" where
  "listed w = (case get_all_track_ids w of Some (Inr L, w') \<Rightarrow> set L | _ \<Rightarrow> {})"

text \<open>Ascending by clip name, then by track name.\<close>

definition pair_less :: "string \<times> string \<Rightarrow> string \<times> string \<Rightarrow> bool" where
  "pair_less p q = (fst p < fst q \<or> (fst p = fst q \<and> snd p < snd q))"

text \<open>
  \<open>add_track\<close> gets as far as creating its dataset: the array is 4-dimensional, the clip
  node exists, the chunk shape fits and the track name is free.
\<close>

definition reaches_dataset :: "clips \<Rightarrow> string \<Rightarrow> string \<Rightarrow> ndarray \<Rightarrow> bool" where
  "reaches_dataset clips c t arr =
     (length (shape arr) = 4
      \<and> chunks_ok (shape arr) [9, 1, shape arr ! 2, shape arr ! 3]
      \<and> (case map_of clips c of None \<Rightarrow> False | Some node \<Rightarrow> \<not> contains (members node) t))"

definition no_null :: "attrs \<Rightarrow> bool" where
  "no_null a = (Scalar PNone \<notin> snd ` set a)"

text \<open>
  The optional keys of a tracker's \<^verbatim>\<open>stats\<close>, and the metadata read back when all are
  absent (listed by name, as \<open>get_clip_meta\<close> returns them).
\<close>

definition default_keys :: "string list" where
  "default_keys = [''confidence'', ''trap'', ''event'', ''average_background_delta'',
     ''mean_temp'', ''max_temp'', ''min_temp'']"

definition default_meta :: "tracker \<Rightarrow> string \<Rightarrow> attrs" where
  "default_meta trk s =
     [(''average_background_delta'', Scalar (PInt 0)),
      (''confidence'', Scalar (PFloat 0)),
      (''event'', Scalar (PStr [])),
      (''filename'', Scalar (source_file trk)),
      (''finished'', finished_attr),
      (''max_temp'', Scalar (PInt 0)),
      (''mean_temp'', Scalar (PInt 0)),
      (''min_temp'', Scalar (PInt 0)),
      (''start_time'', Scalar (PStr s)),
      (''threshold'', Scalar (threshold trk)),
      (''trap'', Scalar (PStr []))]"

text \<open>The outcome of \<open>create_clip\<close>'s attribute writes and the node they leave.\<close>

definition new_clip :: "tracker option \<Rightarrow> (error + unit) \<times> group" where
  "new_clip tr =
     (case (case tr of None \<Rightarrow> (None, []) | Some t \<Rightarrow> write_attrs (tracker_items t) []) of
        (Some e, a) \<Rightarrow> (Inl e, \<lparr>gattrs = a, members = []\<rparr>)
      | (None, a) \<Rightarrow> (Inr (), \<lparr>gattrs = AList.update ''finished'' finished_attr a, members = []\<rparr>))"

text \<open>The outcome of \<open>add_track\<close>'s attribute writes, the node with the new dataset, and the finished marker.\<close>

definition new_track_attrs :: "track option \<Rightarrow> error option \<times> attrs" where
  "new_track_attrs tr = (case tr of None \<Rightarrow> (None, []) | Some t \<Rightarrow> write_attrs (track_items t) [])"

definition with_track :: "group \<Rightarrow> string \<Rightarrow> ndarray \<Rightarrow> attrs \<Rightarrow> group" where
  "with_track node t arr a =
     node\<lparr>members := members node @ [(t, \<lparr>dshape = shape arr, ddata = elems arr, dattrs = a\<rparr>)]\<rparr>"

definition finish :: "group \<Rightarrow> group" where
  "finish node = node\<lparr>gattrs := AList.update ''finished'' finished_attr (gattrs node)\<rparr>"

section \<open>Example databases\<close>

definition empty_db :: world where
  "empty_db = TrackDatabase \<lparr>hdf5_lock = False, backing = Missing\<rparr>"

definition frames9 :: ndarray where
  "frames9 = \<lparr>shape = [9, 1, 1, 1], elems = [1, 2, 3, 4, 5, 6, 7, 8, 9]\<rparr>"

definition one_clip_db :: world where
  "one_clip_db = \<lparr>hdf5_lock = False, backing = H5 (Some
     [(''clip'', \<lparr>gattrs = [(''finished'', finished_attr)], members = []\<rparr>)])\<rparr>"

definition one_track_db :: world where
  "one_track_db = \<lparr>hdf5_lock = False, backing = H5 (Some
     [(''clip'', \<lparr>gattrs = [(''finished'', finished_attr)],
        members = [(''7'', \<lparr>dshape = [9, 1, 1, 1], ddata = elems frames9, dattrs = []\<rparr>)]\<rparr>)])\<rparr>"

definition two_track_db :: world where
  "two_track_db = \<lparr>hdf5_lock = False, backing = H5 (Some
     [(''clip'', \<lparr>gattrs = [(''finished'', finished_attr)],
        members = [(''7'', \<lparr>dshape = [9, 1, 1, 1], ddata = elems frames9, dattrs = []\<rparr>),
                   (''10'', \<lparr>dshape = [9, 1, 1, 1], ddata = elems frames9, dattrs = []\<rparr>)]\<rparr>)])\<rparr>"

text \<open>A tracker whose stats are empty, and one whose start time was never set.\<close>

definition plain_tracker :: tracker where
  "plain_tracker = \<lparr>source_file = PStr ''20171101-150843-akaroa03.cptv'',
     video_start_time = Some (Datetime ''2017-11-01T15:08:43''),
     threshold = PInt 50, stats = []\<rparr>"

definition plain_clip_db :: world where
  "plain_clip_db = \<lparr>hdf5_lock = False, backing = H5 (Some
     [(''clip'', \<lparr>gattrs =
         [(''filename'', Scalar (PStr ''20171101-150843-akaroa03.cptv'')),
          (''start_time'', Scalar (PStr ''2017-11-01T15:08:43'')),
          (''threshold'', Scalar (PInt 50)),
          (''confidence'', Scalar (PFloat 0)),
          (''trap'', Scalar (PStr [])),
          (''event'', Scalar (PStr [])),
          (''average_background_delta'', Scalar (PInt 0)),
          (''mean_temp'', Scalar (PInt 0)),
          (''max_temp'', Scalar (PInt 0)),
          (''min_temp'', Scalar (PInt 0)),
          (''finished'', finished_attr)],
        members = []\<rparr>)])\<rparr>"

definition bad_tracker :: tracker where
  "bad_tracker = \<lparr>source_file = PStr ''20171101-150843-akaroa03.cptv'',
     video_start_time = None, threshold = PInt 50, stats = []\<rparr>"

definition unfinished_db :: world where
  "unfinished_db = \<lparr>hdf5_lock = False, backing = H5 (Some
     [(''clip'', \<lparr>gattrs = [(''filename'', Scalar (PStr ''20171101-150843-akaroa03.cptv''))],
        members = []\<rparr>)])\<rparr>"

text \<open>
  Track records for a 9-frame array: one with a single bounds entry, one with an entry
  per frame, one whose start time was never set.
\<close>

definition box :: bounds where
  "box = \<lparr>left_b = 1, top_b = 2, right_b = 3, bottom_b = 4, mass_b = 5\<rparr>"

definition short_track :: track where
  "short_track = \<lparr>id_t = PInt 7, tag = PStr ''possum'',
     start_time = Some (Datetime ''2017-11-01T15:08:43''),
     end_time = Some (Datetime ''2017-11-01T15:08:44''),
     get_stats = [], bounds_history = [box]\<rparr>"

definition short_track_db :: world where
  "short_track_db = \<lparr>hdf5_lock = False, backing = H5 (Some
     [(''clip'', \<lparr>gattrs = [(''finished'', finished_attr)],
        members = [(''7'', \<lparr>dshape = [9, 1, 1, 1], ddata = elems frames9,
          dattrs = [(''id'', Scalar (PInt 7)), (''tag'', Scalar (PStr ''possum'')),
                    (''start_time'', Scalar (PStr ''2017-11-01T15:08:43'')),
                    (''end_time'', Scalar (PStr ''2017-11-01T15:08:44'')),
                    (''mass_history'', Int32Array [5]),
                    (''bounds_history'', Int16Array [[1, 2, 3, 4]])]\<rparr>)]\<rparr>)])\<rparr>"

definition full_track :: track where
  "full_track = short_track\<lparr>bounds_history := replicate 9 box\<rparr>"

definition full_track_db :: world where
  "full_track_db = \<lparr>hdf5_lock = False, backing = H5 (Some
     [(''clip'', \<lparr>gattrs = [(''finished'', finished_attr)],
        members = [(''7'', \<lparr>dshape = [9, 1, 1, 1], ddata = elems frames9,
          dattrs = [(''id'', Scalar (PInt 7)), (''tag'', Scalar (PStr ''possum'')),
                    (''start_time'', Scalar (PStr ''2017-11-01T15:08:43'')),
                    (''end_time'', Scalar (PStr ''2017-11-01T15:08:44'')),
                    (''mass_history'', Int32Array (replicate 9 5)),
                    (''bounds_history'', Int16Array (replicate 9 [1, 2, 3, 4]))]\<rparr>)]\<rparr>)])\<rparr>"

definition bad_track :: track where
  "bad_track = short_track\<lparr>start_time := None\<rparr>"

definition half_track_db :: world where
  "half_track_db = \<lparr>hdf5_lock = False, backing = H5 (Some
     [(''clip'', \<lparr>gattrs = [(''finished'', finished_attr)],
        members = [(''7'', \<lparr>dshape = [9, 1, 1, 1], ddata = elems frames9,
          dattrs = [(''id'', Scalar (PInt 7)), (''tag'', Scalar (PStr ''possum''))]\<rparr>)]\<rparr>)])\<rparr>"

section \<open>Sessions on a database file\<close>

lemma File_H5: "m \<noteq> Mode_w \<Longrightarrow> File (H5 r) m = Inr r"
  by (cases m) simp_all

lemma File_R_Inr: "File b Mode_r = Inr f \<Longrightarrow> b = H5 f"
  by (cases b) simp_all

lemma HDF5Manager_H5:
  assumes "\<not> hdf5_lock w" and "backing w = H5 f" and "m \<noteq> Mode_w"
  shows "HDF5Manager m body w = Some (fst (body f), w\<lparr>backing := H5 (snd (body f))\<rparr>)"
  using assms by (simp add: HDF5Manager_def File_H5 split: prod.splits)

lemma HDF5Manager_reading:
  assumes "\<not> hdf5_lock w"
  shows "\<exists>r w'. HDF5Manager Mode_r (reading g) w = Some (r, w') \<and> backing w' = backing w"
proof (cases "File (backing w) Mode_r")
  case (Inl e)
  with assms show ?thesis by (simp add: HDF5Manager_def)
next
  case (Inr f)
  then have "backing w = H5 f" by (rule File_R_Inr)
  with assms Inr show ?thesis by (simp add: HDF5Manager_def reading_def)
qed

lemma reading_H5:
  assumes "\<not> hdf5_lock w" and "backing w = H5 f"
  shows "HDF5Manager Mode_r (reading g) w = Some (g f, w)"
  using assms by (simp add: HDF5Manager_H5 reading_def)

lemma contains_iff: "contains g name \<longleftrightarrow> name \<in> fst ` set g"
  by (simp add: contains_def map_of_eq_None_iff)

lemma has_clip_H5:
  assumes "\<not> hdf5_lock w" and "backing w = H5 (Some clips)"
  shows "has_clip w c =
         Some (Inr (\<exists>node. map_of clips c = Some node \<and> contains (gattrs node) ''finished''), w)"
proof (cases "map_of clips c")
  case None
  then have "has_clip_body c (Some clips) = Inr False"
    by (simp add: has_clip_body_def getitem_clips_def contains_def)
  with assms None show ?thesis
    by (simp add: has_clip_def reading_H5)
next
  case (Some node)
  then have "has_clip_body c (Some clips) = Inr (contains (gattrs node) ''finished'')"
    by (simp add: has_clip_body_def getitem_clips_def getitem_def) (simp add: contains_def)
  with assms Some show ?thesis
    by (simp add: has_clip_def reading_H5)
qed

section \<open>What get_all_track_ids lists\<close>

lemma set_names: "set (names g) = fst ` set g"
  by (simp add: names_def)

lemma distinct_names: "distinct (names g)"
  by (simp add: names_def)

lemma sorted_names: "sorted (names g)"
  by (simp add: names_def)

lemma strict_names: "sorted_wrt (<) (names g)"
  by (simp add: strict_sorted_iff sorted_names distinct_names)

lemma update_snoc:
  "k \<notin> fst ` set xs \<Longrightarrow> AList.update k v (xs @ [(k, v0)]) = xs @ [(k, v)]"
  by (induction xs) auto

lemma listing_mem:
  assumes "get_all_track_ids_body (Some clips) = Inr L"
  shows "(c, t) \<in> set L \<longleftrightarrow>
         (\<exists>node. map_of clips c = Some node \<and> contains (members node) t)"
proof -
  let ?tracks = "\<lambda>clip. case getitem clips clip of Inl e \<Rightarrow> [] | Inr node \<Rightarrow> names (members node)"
  have L: "L = concat (map (\<lambda>clip. map (\<lambda>track. (clip, track)) (?tracks clip)) (names clips))"
    using assms by (simp add: get_all_track_ids_body_def getitem_clips_def)
  have mem: "(c, t) \<in> set L \<longleftrightarrow> c \<in> fst ` set clips \<and> t \<in> set (?tracks c)"
    unfolding L by (auto simp: set_names)
  show ?thesis
  proof (cases "map_of clips c")
    case None
    then show ?thesis by (simp add: mem getitem_def)
  next
    case (Some node)
    then have "c \<in> fst ` set clips"
      by (metis map_of_eq_None_iff option.distinct(1))
    with Some show ?thesis by (simp add: mem getitem_def set_names contains_iff)
  qed
qed

lemma listing_set:
  assumes "get_all_track_ids_body (Some clips) = Inr L"
  shows "set L = stored_pairs clips"
  using listing_mem[OF assms] by (auto simp: stored_pairs_def)

lemma listing_total: "\<exists>L. get_all_track_ids_body (Some clips) = Inr L"
  by (simp add: get_all_track_ids_body_def getitem_clips_def)

lemma sorted_pairs_concat:
  assumes "sorted_wrt (<) cs" and "\<And>c. sorted_wrt (<) (ts c)"
  shows "sorted_wrt pair_less (concat (map (\<lambda>c. map (\<lambda>t. (c, t)) (ts c)) cs))"
  using assms(1)
proof (induction cs)
  case Nil
  then show ?case by simp
next
  case (Cons c cs)
  have inner: "sorted_wrt pair_less (map (\<lambda>t. (c, t)) (ts c))"
    using assms(2)[of c] by (simp add: sorted_wrt_map pair_less_def)
  have cross: "pair_less p q"
    if "p \<in> set (map (\<lambda>t. (c, t)) (ts c))"
      and "q \<in> set (concat (map (\<lambda>c. map (\<lambda>t. (c, t)) (ts c)) cs))" for p q
    using that Cons.prems by (auto simp: pair_less_def)
  from Cons have rest: "sorted_wrt pair_less (concat (map (\<lambda>c. map (\<lambda>t. (c, t)) (ts c)) cs))"
    by simp
  show ?case
    using inner rest cross by (simp add: sorted_wrt_append)
qed


lemma listing_sorted:
  assumes "get_all_track_ids_body (Some clips) = Inr L"
  shows "sorted_wrt pair_less L"
proof -
  let ?tracks = "\<lambda>clip. case getitem clips clip of Inl e \<Rightarrow> [] | Inr node \<Rightarrow> names (members node)"
  have L: "L = concat (map (\<lambda>clip. map (\<lambda>track. (clip, track)) (?tracks clip)) (names clips))"
    using assms by (simp add: get_all_track_ids_body_def getitem_clips_def)
  have "sorted_wrt (<) (?tracks c)" for c
    by (cases "getitem clips c") (simp_all add: strict_names)
  then show ?thesis
    unfolding L by (intro sorted_pairs_concat strict_names)
qed

lemma get_all_track_ids_H5:
  assumes "\<not> hdf5_lock w" and "backing w = H5 (Some clips)"
  shows "\<exists>L. get_all_track_ids w = Some (Inr L, w) \<and> sorted_wrt pair_less L
           \<and> set L = stored_pairs clips"
proof -
  obtain L where L: "get_all_track_ids_body (Some clips) = Inr L"
    using listing_total by blast
  have "get_all_track_ids w = Some (Inr L, w)"
    by (simp add: get_all_track_ids_def reading_H5[OF assms] L)
  with listing_sorted[OF L] listing_set[OF L] show ?thesis by blast
qed

lemma listed_H5:
  assumes "\<not> hdf5_lock w" and "backing w = H5 (Some clips)"
  shows "listed w = stored_pairs clips"
  using get_all_track_ids_H5[OF assms] by (auto simp: listed_def)

section \<open>Attribute writes\<close>

lemma update_absent: "k \<notin> fst ` set a \<Longrightarrow> AList.update k v a = a @ [(k, v)]"
  by (induction a) auto

lemma set_update_subset: "set (AList.update k v a) \<subseteq> insert (k, v) (set a)"
  by (induction a) auto

lemma items_dict_fold:
  "distinct (map fst (acc @ a)) \<Longrightarrow>
   fold (\<lambda>(key, v) result. AList.update key v result) a acc = acc @ a"
proof (induction a arbitrary: acc)
  case Nil
  then show ?case by simp
next
  case (Cons x a)
  obtain k v where x: "x = (k, v)" by (cases x)
  from Cons.prems have "k \<notin> fst ` set acc" by (auto simp: x)
  then have u: "AList.update k v acc = acc @ [(k, v)]" by (rule update_absent)
  from Cons.prems have "distinct (map fst ((acc @ [(k, v)]) @ a))" by (simp add: x)
  from Cons.IH[OF this] show ?case by (simp add: x u)
qed

lemma distinct_items: "distinct (map fst (items a)) = distinct (map fst a)"
  by (simp add: items_def distinct_map)

lemma items_dict_distinct: "distinct (map fst a) \<Longrightarrow> items_dict a = items a"
  using items_dict_fold[of "[]" "items a"] by (simp add: items_dict_def distinct_items)

lemma map_of_items: "distinct (map fst a) \<Longrightarrow> map_of (items a) = map_of a"
proof -
  assume d: "distinct (map fst a)"
  then have "distinct (map fst (items a))" by (simp add: distinct_items)
  from map_of_inject_set[OF this d] show ?thesis by (simp add: items_def)
qed

lemma attr_set_Inr:
  "attr_set name v a = Inr a' \<Longrightarrow> a' = AList.update name v a \<and> v \<noteq> Scalar PNone"
  by (auto simp: attr_set_def split: attr.splits option.splits)

lemma attr_set_array:
  "attr_set name (Int32Array xs) a = Inr (AList.update name (Int32Array xs) a)"
  "attr_set name (Int16Array rows) a = Inr (AList.update name (Int16Array rows) a)"
  by (simp_all add: attr_set_def)

lemma attr_set_scalar:
  "refusal x = None \<Longrightarrow> attr_set name (Scalar x) a = Inr (AList.update name (Scalar x) a)"
  by (simp add: attr_set_def)

lemma write_attrs_distinct:
  "distinct (map fst a) \<Longrightarrow> write_attrs xs a = (r, a') \<Longrightarrow> distinct (map fst a')"
proof (induction xs a rule: write_attrs.induct)
  case (1 a)
  then show ?case by simp
next
  case (2 name e rest a)
  then show ?case by simp
next
  case (3 name v rest a)
  show ?case
  proof (cases "attr_set name v a")
    case (Inl e)
    with "3.prems" show ?thesis by simp
  next
    case (Inr a1)
    then have "distinct (map fst a1)"
      using attr_set_Inr[OF Inr] "3.prems"(1) by (simp add: AList.distinct_update)
    with "3.IH"[OF Inr] "3.prems"(2) Inr show ?thesis by simp
  qed
qed

lemma write_attrs_no_null:
  "no_null a \<Longrightarrow> write_attrs xs a = (r, a') \<Longrightarrow> no_null a'"
proof (induction xs a rule: write_attrs.induct)
  case (1 a)
  then show ?case by simp
next
  case (2 name e rest a)
  then show ?case by simp
next
  case (3 name v rest a)
  show ?case
  proof (cases "attr_set name v a")
    case (Inl e)
    with "3.prems" show ?thesis by simp
  next
    case (Inr a1)
    have "no_null a1"
      using attr_set_Inr[OF Inr] "3.prems"(1) set_update_subset[of name v a]
      by (auto simp: no_null_def)
    with "3.IH"[OF Inr] "3.prems"(2) Inr show ?thesis by simp
  qed
qed

lemma write_attrs_append:
  "write_attrs (xs @ ys) a =
     (case write_attrs xs a of (Some e, a') \<Rightarrow> (Some e, a') | (None, a') \<Rightarrow> write_attrs ys a')"
  by (induction xs a rule: write_attrs.induct) (auto split: sum.splits)

lemma write_attrs_keys:
  "write_attrs xs a = (r, a') \<Longrightarrow> fst ` set a' \<subseteq> fst ` set a \<union> fst ` set xs"
proof (induction xs a rule: write_attrs.induct)
  case (1 a)
  then show ?case by simp
next
  case (2 name e rest a)
  then show ?case by auto
next
  case (3 name v rest a)
  show ?case
  proof (cases "attr_set name v a")
    case (Inl e)
    with "3.prems" show ?thesis by auto
  next
    case (Inr a1)
    with "3.prems" have "write_attrs rest a1 = (r, a')" by simp
    from "3.IH"[OF Inr this] have "fst ` set a' \<subseteq> fst ` set a1 \<union> fst ` set rest" .
    moreover have "fst ` set a1 = {name} \<union> fst ` set a"
      using attr_set_Inr[OF Inr] by (simp add: AList.dom_update)
    ultimately show ?thesis by auto
  qed
qed

section \<open>The effect of create_clip\<close>

lemma create_clip_H5:
  assumes "\<not> hdf5_lock w" and "backing w = H5 (Some clips)"
  shows "create_clip w c tr ov =
         Some (fst (create_clip_body c tr ov (Some clips)),
               w\<lparr>backing := H5 (snd (create_clip_body c tr ov (Some clips)))\<rparr>)"
  using assms by (simp add: create_clip_def HDF5Manager_H5)

lemma create_clip_body_exists:
  assumes "contains clips c"
  shows "create_clip_body c tr False (Some clips) = (Inl ValueError, Some clips)"
  using assms by (simp add: create_clip_body_def getitem_clips_def create_group_def)

lemma create_clip_body_overwrite:
  "create_clip_body c tr True (Some clips) =
     (fst (new_clip tr), Some (AList.delete c clips @ [(c, snd (new_clip tr))]))"
proof -
  have eq: "(if contains clips c then delitem clips c else clips) = AList.delete c clips"
    by (auto simp: delitem_def contains_iff)
  have grp: "create_group (AList.delete c clips) c =
             Inr (AList.delete c clips @ [(c, \<lparr>gattrs = [], members = []\<rparr>)])"
    by (simp add: create_group_def contains_iff AList.delete_notin_dom)
  have upd: "AList.update c n (AList.delete c clips @ [(c, n0)]) = AList.delete c clips @ [(c, n)]" for n n0
    by (rule update_snoc) (rule AList.delete_notin_dom)
  show ?thesis
    unfolding create_clip_body_def new_clip_def getitem_clips_def
    by (simp add: eq grp upd split: prod.splits option.splits)
qed

lemma create_clip_body_general:
  "create_clip_body c tr ov (Some clips) =
     (if \<not> ov \<and> contains clips c then (Inl ValueError, Some clips)
      else (fst (new_clip tr), Some (AList.delete c clips @ [(c, snd (new_clip tr))])))"
proof (cases "\<not> ov \<and> contains clips c")
  case True
  then show ?thesis by (simp add: create_clip_body_exists)
next
  case False
  show ?thesis
  proof (cases ov)
    case True
    then show ?thesis by (simp add: create_clip_body_overwrite)
  next
    case ov: False
    with False have "\<not> contains clips c" by simp
    then have "create_clip_body c tr False (Some clips) = create_clip_body c tr True (Some clips)"
      by (simp add: create_clip_body_def getitem_clips_def)
    with ov False show ?thesis by (simp add: create_clip_body_overwrite)
  qed
qed

lemma new_clip_members: "members (snd (new_clip tr)) = []"
  by (simp add: new_clip_def split: prod.splits option.splits)

lemma new_clip_distinct: "distinct (map fst (gattrs (snd (new_clip tr))))"
proof (cases tr)
  case None
  then show ?thesis by (simp add: new_clip_def)
next
  case (Some t)
  obtain r a where wa: "write_attrs (tracker_items t) [] = (r, a)" by (cases "write_attrs (tracker_items t) []")
  then have "distinct (map fst a)" using write_attrs_distinct[of "[]"] by simp
  with Some wa show ?thesis
    by (cases r) (simp_all add: new_clip_def AList.distinct_update)
qed

lemma new_clip_no_null: "no_null (gattrs (snd (new_clip tr)))"
proof -
  have fin: "no_null a \<Longrightarrow> no_null (AList.update ''finished'' finished_attr a)" for a
    using set_update_subset[of "''finished''" finished_attr a]
    by (auto simp: no_null_def finished_attr_def)
  show ?thesis
  proof (cases tr)
    case None
    then show ?thesis by (simp add: new_clip_def no_null_def finished_attr_def)
  next
    case (Some t)
    obtain r a where wa: "write_attrs (tracker_items t) [] = (r, a)" by (cases "write_attrs (tracker_items t) []")
    then have "no_null a" using write_attrs_no_null[of "[]"] by (simp add: no_null_def)
    with Some wa fin show ?thesis
      by (cases r) (simp_all add: new_clip_def)
  qed
qed

lemma new_clip_finished:
  "fst (new_clip tr) = Inr () \<Longrightarrow> map_of (gattrs (snd (new_clip tr))) ''finished'' = Some finished_attr"
  by (auto simp: new_clip_def AList.update_conv' split: prod.splits option.splits)

lemma new_clip_unfinished:
  assumes "fst (new_clip tr) = Inl e"
  shows "\<not> contains (gattrs (snd (new_clip tr))) ''finished''"
proof (cases tr)
  case None
  with assms show ?thesis by (simp add: new_clip_def)
next
  case (Some t)
  obtain r a where wa: "write_attrs (tracker_items t) [] = (r, a)"
    by (cases "write_attrs (tracker_items t) []")
  from write_attrs_keys[OF wa] have "''finished'' \<notin> fst ` set a"
    by (auto simp: tracker_items_def)
  with assms Some wa show ?thesis
    by (cases r) (simp_all add: new_clip_def contains_iff)
qed

lemma new_clip_None: "new_clip None = (Inr (), \<lparr>gattrs = [(''finished'', finished_attr)], members = []\<rparr>)"
  by (simp add: new_clip_def)

lemma new_clip_defaults:
  assumes "refusal (source_file trk) = None" and "video_start_time trk = Some (Datetime s)"
    and "refusal (PStr s) = None" and "refusal (threshold trk) = None"
    and "list_all (\<lambda>k. map_of (stats trk) k = None) default_keys"
  shows "fst (new_clip (Some trk)) = Inr ()"
    and "items (gattrs (snd (new_clip (Some trk)))) = default_meta trk s"
proof -
  have wa: "write_attrs (tracker_items trk) [] =
        (None, [(''filename'', Scalar (source_file trk)),
      (''start_time'', Scalar (PStr s)),
      (''threshold'', Scalar (threshold trk)),
      (''confidence'', Scalar (PFloat 0)),
      (''trap'', Scalar (PStr [])),
      (''event'', Scalar (PStr [])),
      (''average_background_delta'', Scalar (PInt 0)),
      (''mean_temp'', Scalar (PInt 0)),
      (''max_temp'', Scalar (PInt 0)),
      (''min_temp'', Scalar (PInt 0))])"
    using assms
    by (simp add: tracker_items_def default_keys_def dict_get_def py_or_def isoformat_def
        attr_set_scalar)
  show "fst (new_clip (Some trk)) = Inr ()"
    by (simp add: new_clip_def wa)
  show "items (gattrs (snd (new_clip (Some trk)))) = default_meta trk s"
    by (simp add: new_clip_def wa default_meta_def items_def)
qed

lemma create_clip_overwrite_world:
  assumes "\<not> hdf5_lock w" and "backing w = H5 (Some clips)"
  shows "create_clip w c tr True =
         Some (fst (new_clip tr), w\<lparr>backing := H5 (Some (AList.delete c clips @ [(c, snd (new_clip tr))]))\<rparr>)"
  using assms by (simp add: create_clip_H5 create_clip_body_overwrite)

lemma map_of_replaced:
  "map_of (AList.delete c clips @ [(c, n)]) = (map_of clips)(c \<mapsto> n)"
  by (rule ext) (auto simp: AList.delete_conv' map_add_def split: option.splits)

lemma stored_pairs_replaced:
  assumes "members n = []"
  shows "stored_pairs (AList.delete c clips @ [(c, n)]) = stored_pairs clips - {c} \<times> UNIV"
  unfolding stored_pairs_def map_of_replaced using assms by (auto simp: contains_def split: if_splits)

lemma created_clip_meta:
  assumes "\<not> hdf5_lock w" and "backing w = H5 (Some clips)"
    and "fst (new_clip trk) = Inr ()"
    and "w' = w\<lparr>backing := H5 (Some (AList.delete c clips @ [(c, snd (new_clip trk))]))\<rparr>"
  shows "has_clip w' c = Some (Inr True, w')"
    and "get_clip_meta w' c = Some (Inr (items (gattrs (snd (new_clip trk)))), w')"
proof -
  have l: "\<not> hdf5_lock w'"
    and b: "backing w' = H5 (Some (AList.delete c clips @ [(c, snd (new_clip trk))]))"
    using assms(1) by (simp_all add: assms(4))
  have "contains (gattrs (snd (new_clip trk))) ''finished''"
    using new_clip_finished[OF assms(3)] by (simp add: contains_def)
  then show "has_clip w' c = Some (Inr True, w')"
    unfolding has_clip_H5[OF l b] map_of_replaced by simp
  have "get_clip_meta_body c (Some (AList.delete c clips @ [(c, snd (new_clip trk))]))
        = Inr (items (gattrs (snd (new_clip trk))))"
    by (simp add: get_clip_meta_body_def getitem_clips_def getitem_def map_of_replaced
        items_dict_distinct[OF new_clip_distinct] del: map_of_append)
  then show "get_clip_meta w' c = Some (Inr (items (gattrs (snd (new_clip trk)))), w')"
    by (simp add: get_clip_meta_def reading_H5[OF l b])
qed

section \<open>The effect of add_track\<close>

lemma add_track_H5:
  assumes "\<not> hdf5_lock w" and "backing w = H5 (Some clips)" and "length (shape arr) = 4"
  shows "add_track w c t arr tr =
         Some (fst (add_track_body c t arr tr (Some clips)),
               w\<lparr>backing := H5 (snd (add_track_body c t arr tr (Some clips)))\<rparr>)"
  using assms by (simp add: add_track_def HDF5Manager_H5)

lemma add_track_body_cases:
  assumes "add_track_body c t arr tr (Some clips) = (r, f')"
  shows "(\<exists>e. r = Inl e \<and> f' = Some clips)
       \<or> (\<exists>node a. map_of clips c = Some node \<and> map_of (members node) t = None
            \<and> length (shape arr) = 4 \<and> chunks_ok (shape arr) [9, 1, shape arr ! 2, shape arr ! 3]
            \<and> ((\<exists>e. new_track_attrs tr = (Some e, a) \<and> r = Inl e
                  \<and> f' = Some (AList.update c (with_track node t arr a) clips))
               \<or> (new_track_attrs tr = (None, a) \<and> r = Inr ()
                  \<and> f' = Some (AList.update c
                       ((with_track node t arr a)\<lparr>gattrs := AList.update ''finished'' finished_attr (gattrs node)\<rparr>)
                       clips))))"
proof (cases "shape arr")
  case Nil
  with assms show ?thesis by (auto simp: add_track_body_def)
next
  case (Cons F s1)
  show ?thesis
  proof (cases "\<exists>Ch H W. s1 = [Ch, H, W]")
    case False
    with assms Cons show ?thesis
      by (auto simp: add_track_body_def split: list.splits)
  next
    case True
    then obtain Ch H W where s1: "s1 = [Ch, H, W]" by blast
    have sh: "shape arr = [F, Ch, H, W]" by (simp add: Cons s1)
    show ?thesis
    proof (cases "map_of clips c")
      case None
      with assms sh show ?thesis
        by (auto simp: add_track_body_def getitem_clips_def getitem_def)
    next
      case (Some node)
      show ?thesis
      proof (cases "create_dataset node t [F, Ch, H, W] [9, 1, H, W]")
        case (Inl e)
        with assms sh Some show ?thesis
          by (auto simp: add_track_body_def getitem_clips_def getitem_def)
      next
        case (Inr dset)
        then have ok: "chunks_ok [F, Ch, H, W] [9, 1, H, W]"
          and free: "map_of (members node) t = None"
          and dset: "dset = \<lparr>dshape = [F, Ch, H, W], ddata = replicate (prod_list [F, Ch, H, W]) 0, dattrs = []\<rparr>"
          by (auto simp: create_dataset_def contains_def split: if_splits)
        obtain err a where nt: "new_track_attrs tr = (err, a)" by (cases "new_track_attrs tr")
        have body: "add_track_body c t arr tr (Some clips) =
              (case err of
                 Some e \<Rightarrow> (Inl e, Some (AList.update c (with_track node t arr a) clips))
               | None \<Rightarrow> (Inr (), Some (AList.update c
                    ((with_track node t arr a)\<lparr>gattrs := AList.update ''finished'' finished_attr (gattrs node)\<rparr>)
                    clips)))"
          using nt sh Some Inr
          by (simp add: add_track_body_def getitem_clips_def getitem_def new_track_attrs_def
              with_track_def dset split: option.splits)
        show ?thesis
        proof (cases err)
          case None
          with body assms nt Some free ok sh show ?thesis by auto
        next
          case (Some e)
          with body assms nt \<open>map_of clips c = Some node\<close> free ok sh show ?thesis by auto
        qed
      qed
    qed
  qed
qed

lemma finish_with_track:
  "(with_track node t arr a)\<lparr>gattrs := AList.update ''finished'' finished_attr (gattrs node)\<rparr>
   = finish (with_track node t arr a)"
  by (simp add: finish_def with_track_def)

lemma add_track_success:
  assumes "\<not> hdf5_lock w" and "backing w = H5 (Some clips)"
    and "add_track w c t arr tr = Some (Inr (), w')"
  shows "\<exists>node a. map_of clips c = Some node \<and> map_of (members node) t = None
           \<and> new_track_attrs tr = (None, a) \<and> length (shape arr) = 4
           \<and> chunks_ok (shape arr) [9, 1, shape arr ! 2, shape arr ! 3]
           \<and> w' = w\<lparr>backing := H5 (Some (AList.update c (finish (with_track node t arr a)) clips))\<rparr>"
proof -
  have len: "length (shape arr) = 4"
    using assms(3) by (auto simp: add_track_def split: if_splits)
  obtain r f' where body: "add_track_body c t arr tr (Some clips) = (r, f')"
    by (cases "add_track_body c t arr tr (Some clips)")
  from assms(3) add_track_H5[OF assms(1,2) len, of c t tr] body
  have r: "r = Inr ()" and w': "w' = w\<lparr>backing := H5 f'\<rparr>" by simp_all
  from add_track_body_cases[OF body] r w' show ?thesis
    by (auto simp: finish_with_track)
qed

lemma add_track_failure:
  assumes "\<not> hdf5_lock w" and "backing w = H5 (Some clips)"
    and "add_track w c t arr tr = Some (Inl e, w')"
  shows "w' = w \<or> (\<exists>node a. map_of clips c = Some node \<and> map_of (members node) t = None
           \<and> w' = w\<lparr>backing := H5 (Some (AList.update c (with_track node t arr a) clips))\<rparr>)"
proof (cases "length (shape arr) = 4")
  case False
  with assms(3) show ?thesis by (simp add: add_track_def)
next
  case True
  obtain r f' where body: "add_track_body c t arr tr (Some clips) = (r, f')"
    by (cases "add_track_body c t arr tr (Some clips)")
  from assms(3) add_track_H5[OF assms(1,2) True, of c t tr] body
  have r: "r = Inl e" and w': "w' = w\<lparr>backing := H5 f'\<rparr>" by simp_all
  from add_track_body_cases[OF body] r w' assms(2) show ?thesis
    by auto
qed

lemma add_track_failure_exact:
  assumes "\<not> hdf5_lock w" and "backing w = H5 (Some clips)"
    and "add_track w c t arr tr = Some (Inl e, w')"
  shows "if reaches_dataset clips c t arr
         then (\<exists>node a. map_of clips c = Some node \<and> map_of (members node) t = None
                 \<and> w' = w\<lparr>backing := H5 (Some (AList.update c (with_track node t arr a) clips))\<rparr>)
         else w' = w"
proof (cases "length (shape arr) = 4")
  case False
  with assms(3) show ?thesis by (simp add: add_track_def reaches_dataset_def)
next
  case True
  then obtain F Ch H W where sh: "shape arr = [F, Ch, H, W]"
    by (auto simp: length_Suc_conv numeral_eq_Suc)
  obtain r f' where body: "add_track_body c t arr tr (Some clips) = (r, f')"
    by (cases "add_track_body c t arr tr (Some clips)")
  from assms(3) add_track_H5[OF assms(1,2) True, of c t tr] body
  have r: "r = Inl e" and w': "w' = w\<lparr>backing := H5 f'\<rparr>" by simp_all
  show ?thesis
  proof (cases "reaches_dataset clips c t arr")
    case False
    then have "create_dataset node t [F, Ch, H, W] [9, 1, H, W] = Inl ValueError"
      if "map_of clips c = Some node" for node
      using that sh by (auto simp: reaches_dataset_def create_dataset_def)
    with body sh have "f' = Some clips"
      by (cases "map_of clips c")
         (auto simp: add_track_body_def getitem_clips_def getitem_def)
    with False w' assms(2) show ?thesis by auto
  next
    case reach: True
    then obtain node where node: "map_of clips c = Some node"
      and free: "\<not> contains (members node) t"
      and ok: "chunks_ok [F, Ch, H, W] [9, 1, H, W]"
      using sh by (auto simp: reaches_dataset_def split: option.splits)
    have ds: "create_dataset node t [F, Ch, H, W] [9, 1, H, W]
              = Inr \<lparr>dshape = [F, Ch, H, W], ddata = replicate (prod_list [F, Ch, H, W]) 0, dattrs = []\<rparr>"
      using free ok by (simp add: create_dataset_def)
    obtain err a where nt: "new_track_attrs tr = (err, a)" by (cases "new_track_attrs tr")
    have "add_track_body c t arr tr (Some clips) =
              (case err of
                 Some e \<Rightarrow> (Inl e, Some (AList.update c (with_track node t arr a) clips))
               | None \<Rightarrow> (Inr (), Some (AList.update c
                    ((with_track node t arr a)\<lparr>gattrs := AList.update ''finished'' finished_attr (gattrs node)\<rparr>)
                    clips)))"
      using nt sh node ds
      by (simp add: add_track_body_def getitem_clips_def getitem_def new_track_attrs_def
          with_track_def split: option.splits)
    with body r have "f' = Some (AList.update c (with_track node t arr a) clips)"
      by (cases err) auto
    with reach node free w' show ?thesis by (auto simp: contains_def)
  qed
qed

lemma contains_with_track_plain:
  "contains (members (with_track node t arr a)) y \<longleftrightarrow> y = t \<or> contains (members node) y"
  by (auto simp: with_track_def contains_def map_add_def split: option.splits)

lemma stored_pairs_with_track:
  assumes "map_of clips c = Some node" and "map_of (members node) t = None"
  shows "stored_pairs (AList.update c (with_track node t arr a) clips)
         = insert (c, t) (stored_pairs clips)"
  unfolding stored_pairs_def AList.update_conv' using assms(1)
  by (auto simp: contains_with_track_plain split: if_splits)

lemma map_of_with_track:
  "map_of (members node) t = None \<Longrightarrow>
   map_of (members (with_track node t arr a)) t = Some \<lparr>dshape = shape arr, ddata = elems arr, dattrs = a\<rparr>"
  by (simp add: with_track_def map_add_def)

lemma members_finish: "members (finish node) = members node"
  by (simp add: finish_def)

lemma get_track_body_stored:
  assumes "map_of clips c = Some node" and "map_of (members node) t = Some d"
  shows "get_track_body c t s e (Some clips) = Inl ValueError"
  using assms by (simp add: get_track_body_def getitem_clips_def getitem_def dataset_getitem_field_def)

lemma track_attrs_history:
  assumes "new_track_attrs (Some tr) = (None, a)"
  shows "distinct (map fst a)
       \<and> map_of a ''mass_history''
           = Some (Int32Array (map word_of_int (map mass_b (bounds_history tr))))
       \<and> map_of a ''bounds_history''
           = Some (Int16Array (map (map word_of_int)
               (map (\<lambda>b. [left_b b, top_b b, right_b b, bottom_b b]) (bounds_history tr))))"
proof -
  let ?ms = "map mass_b (bounds_history tr)"
  let ?bs = "map (\<lambda>b. [left_b b, top_b b, right_b b, bottom_b b]) (bounds_history tr)"
  let ?pre = "[(''id'', Inr (Scalar (id_t tr))), (''tag'', Inr (Scalar (tag tr))),
      (''start_time'', isoformat (start_time tr)), (''end_time'', isoformat (end_time tr))]
     @ map (\<lambda>(name, v). (name, Inr (Scalar v))) (get_stats tr)"
  have its: "track_items tr = ?pre @ [(''mass_history'', np_int32 ?ms), (''bounds_history'', np_int16 ?bs)]"
    by (simp add: track_items_def)
  have wa: "write_attrs (track_items tr) [] = (None, a)"
    using assms by (simp add: new_track_attrs_def)
  obtain r1 a1 where pre: "write_attrs ?pre [] = (r1, a1)" by (cases "write_attrs ?pre []")
  have r1: "r1 = None"
    using wa pre unfolding its write_attrs_append by (cases r1) auto
  have last: "write_attrs [(''mass_history'', np_int32 ?ms), (''bounds_history'', np_int16 ?bs)] a1
              = (None, a)"
    using wa pre r1 unfolding its write_attrs_append by simp
  have m: "np_int32 ?ms = Inr (Int32Array (map word_of_int ?ms))"
    using last by (cases "list_all (in_range 32) ?ms") (simp_all add: np_int32_def)
  have h: "np_int16 ?bs = Inr (Int16Array (map (map word_of_int) ?bs))"
    using last unfolding m
    by (cases "list_all (list_all (in_range 16)) ?bs") (simp_all add: np_int16_def attr_set_array)
  have a: "a = AList.update ''bounds_history'' (Int16Array (map (map word_of_int) ?bs))
                 (AList.update ''mass_history'' (Int32Array (map word_of_int ?ms)) a1)"
    using last unfolding m h by (simp add: attr_set_array)
  have "distinct (map fst a)"
    using write_attrs_distinct[OF _ wa] by simp
  then show ?thesis
    by (simp add: a AList.update_conv')
qed



lemma has_clip_same_attrs:
  assumes "\<not> hdf5_lock w" and "backing w = H5 (Some clips)"
    and "\<not> hdf5_lock w'" and "backing w' = H5 (Some clips')"
    and "map_option gattrs (map_of clips' c) = map_option gattrs (map_of clips c)"
  shows "\<exists>b. has_clip w c = Some (Inr b, w) \<and> has_clip w' c = Some (Inr b, w')"
proof -
  have "(\<exists>node. map_of clips' c = Some node \<and> contains (gattrs node) ''finished'')
      = (\<exists>node. map_of clips c = Some node \<and> contains (gattrs node) ''finished'')"
    using assms(5) by (cases "map_of clips c"; cases "map_of clips' c") auto
  then show ?thesis
    by (simp add: has_clip_H5[OF assms(1,2)] has_clip_H5[OF assms(3,4)])
qed

section \<open>Histories\<close>



section \<open>The example databases, evaluated\<close>

lemmas session_defs = HDF5Manager_def reading_def getitem_clips_def getitem_def contains_def
  names_def items_def items_dict_def finished_attr_def

lemmas body_defs = has_clip_body_def create_clip_body_def get_all_track_ids_body_def
  get_track_meta_body_def get_clip_meta_body_def get_track_body_def add_track_body_def
  create_group_def create_dataset_def chunks_ok_def delitem_def attr_set_def isoformat_def
  dataset_getitem_field_def tracker_items_def track_items_def dict_get_def py_or_def
  np_int32_def np_int16_def in_range_def

lemma empty_db_eq: "empty_db = \<lparr>hdf5_lock = False, backing = H5 (Some [])\<rparr>"
  by (simp add: empty_db_def TrackDatabase_def)

lemma one_clip_db_created:
  "create_clip empty_db ''clip'' None True = Some (Inr (), one_clip_db)"
  by (simp add: empty_db_eq one_clip_db_def create_clip_def session_defs body_defs)

lemma one_track_db_created:
  "add_track one_clip_db ''clip'' ''7'' frames9 None = Some (Inr (), one_track_db)"
  by (simp add: one_clip_db_def one_track_db_def frames9_def add_track_def session_defs body_defs)


lemma one_clip_db_recreated:
  "create_clip one_track_db ''clip'' None True = Some (Inr (), one_clip_db)"
  by (simp add: one_track_db_def one_clip_db_def create_clip_def session_defs body_defs)

lemma plain_clip_db_created:
  "create_clip empty_db ''clip'' (Some plain_tracker) True = Some (Inr (), plain_clip_db)"
  by (simp add: empty_db_eq plain_clip_db_def plain_tracker_def create_clip_def
      session_defs body_defs)

lemma unfinished_db_left:
  "create_clip one_track_db ''clip'' (Some bad_tracker) True = Some (Inl AttributeError, unfinished_db)"
  by (simp add: one_track_db_def unfinished_db_def bad_tracker_def create_clip_def
      session_defs body_defs)

lemma short_track_db_created:
  "add_track one_clip_db ''clip'' ''7'' frames9 (Some short_track) = Some (Inr (), short_track_db)"
  by (simp add: one_clip_db_def short_track_db_def short_track_def box_def frames9_def
      add_track_def session_defs body_defs)

lemma full_track_db_created:
  "add_track one_clip_db ''clip'' ''7'' frames9 (Some full_track) = Some (Inr (), full_track_db)"
  by (simp add: one_clip_db_def full_track_db_def full_track_def short_track_def box_def frames9_def
      add_track_def session_defs body_defs list_all_iff)

lemma half_track_db_left:
  "add_track one_clip_db ''clip'' ''7'' frames9 (Some bad_track) = Some (Inl AttributeError, half_track_db)"
  by (simp add: one_clip_db_def half_track_db_def bad_track_def short_track_def box_def frames9_def
      add_track_def session_defs body_defs)

lemma example_locks:
  "\<not> hdf5_lock empty_db" "\<not> hdf5_lock one_clip_db" "\<not> hdf5_lock one_track_db"
  by (simp_all add: empty_db_eq one_clip_db_def one_track_db_def)

lemma example_backings:
  "backing empty_db = H5 (Some [])"
  "backing one_clip_db = H5 (Some
     [(''clip'', \<lparr>gattrs = [(''finished'', finished_attr)], members = []\<rparr>)])"
  "backing one_track_db = H5 (Some
     [(''clip'', \<lparr>gattrs = [(''finished'', finished_attr)],
        members = [(''7'', \<lparr>dshape = [9, 1, 1, 1], ddata = elems frames9, dattrs = []\<rparr>)]\<rparr>)])"
  by (simp_all add: empty_db_eq one_clip_db_def one_track_db_def)

lemma example_listings:
  "get_all_track_ids one_clip_db = Some (Inr [], one_clip_db)"
  "get_all_track_ids one_track_db = Some (Inr [(''clip'', ''7'')], one_track_db)"
  "get_all_track_ids two_track_db = Some (Inr [(''clip'', ''10''), (''clip'', ''7'')], two_track_db)"
  "get_all_track_ids unfinished_db = Some (Inr [], unfinished_db)"
  by (simp_all add: one_clip_db_def one_track_db_def two_track_db_def unfinished_db_def
      get_all_track_ids_def session_defs body_defs)

lemma example_has_clip:
  "has_clip one_clip_db ''clip'' = Some (Inr True, one_clip_db)"
  "has_clip one_track_db ''clip'' = Some (Inr True, one_track_db)"
  "has_clip half_track_db ''clip'' = Some (Inr True, half_track_db)"
  "has_clip unfinished_db ''clip'' = Some (Inr False, unfinished_db)"
  by (simp_all add: one_clip_db_def one_track_db_def half_track_db_def unfinished_db_def
      has_clip_def session_defs body_defs)

section \<open>The claims\<close>

text \<open>
  C1. After a successful \<open>add_track\<close> of an array under clip \<open>c\<close> and track \<open>t\<close> the
  dataset \<open>clips/c/t\<close> holds the array's shape and elements as given, and
  \<open>get_track\<close> for \<open>c\<close> and \<open>t\<close>, with any bounds, raises ValueError instead of
  returning the array or a slice of it: it indexes the dataset it found once more with
  the track id, which h5py takes for a field name of a compound type.
\<close>

theorem get_track_after_add_track:
  assumes "\<not> hdf5_lock w" and "backing w = H5 (Some clips)"
    and "add_track w c t arr tr = Some (Inr (), w')"
  shows "\<exists>clips' node d.
           backing w' = H5 (Some clips') \<and> map_of clips' c = Some node
         \<and> map_of (members node) t = Some d \<and> dshape d = shape arr \<and> ddata d = elems arr
         \<and> get_track w' c t s e = Some (Inl ValueError, w')"
proof -
  from add_track_success[OF assms] obtain node a where
    free: "map_of (members node) t = None"
    and w': "w' = w\<lparr>backing := H5 (Some (AList.update c (finish (with_track node t arr a)) clips))\<rparr>"
    by blast
  let ?node = "finish (with_track node t arr a)"
  let ?clips = "AList.update c ?node clips"
  let ?d = "\<lparr>dshape = shape arr, ddata = elems arr, dattrs = a\<rparr>"
  have b: "backing w' = H5 (Some ?clips)" and l: "\<not> hdf5_lock w'"
    using assms(1) by (simp_all add: w')
  have n: "map_of ?clips c = Some ?node" by (simp add: AList.update_conv')
  have d: "map_of (members ?node) t = Some ?d"
    using free by (simp add: members_finish map_of_with_track)
  have g: "get_track w' c t s e = Some (Inl ValueError, w')"
    by (simp add: get_track_def reading_H5[OF l b] get_track_body_stored[OF n d])
  show ?thesis
    using b n d g by (intro exI[of _ ?clips] exI[of _ ?node] exI[of _ ?d]) simp
qed

theorem get_track_after_add_track_witness:
  "add_track one_clip_db ''clip'' ''7'' frames9 None = Some (Inr (), one_track_db)
   \<and> get_track one_track_db ''clip'' ''7'' None None = Some (Inl ValueError, one_track_db)
   \<and> get_track one_track_db ''clip'' ''7'' (Some 2) (Some 5) = Some (Inl ValueError, one_track_db)"
  using get_track_after_add_track[OF example_locks(2) example_backings(2) one_track_db_created, of None None]
    get_track_after_add_track[OF example_locks(2) example_backings(2) one_track_db_created, of "Some 2" "Some 5"]
    one_track_db_created
  by blast



text \<open>
  C3 (as amended). For link names \<open>c\<close> and \<open>t\<close>: a failed \<open>add_track\<close> leaves every
  finished marker as it was, so \<open>has_clip\<close> answers for every clip as before the call.
  When it failed before creating its dataset the store is unchanged; when it failed
  after, the dataset stays in the store with the array's shape and elements, and the
  pair \<open>(c, t)\<close> is listed from then on. A failed \<open>create_clip c\<close> leaves the store
  unchanged when it failed at node creation (\<open>overwrite\<close> False on an existing id);
  otherwise whatever node \<open>c\<close> was there is gone with its tracks and the node in its
  place has no tracks and no finished marker, so \<open>has_clip c\<close> is False afterwards even
  if \<open>c\<close> was finished before; every other clip is as before.
\<close>

theorem failed_write_finished_marker:
  assumes "\<not> hdf5_lock w" and "backing w = H5 (Some clips)"
  shows "(\<forall>c t arr tr e w'. link_name c \<and> link_name t
            \<and> add_track w c t arr tr = Some (Inl e, w') \<longrightarrow>
            (\<forall>c'. \<exists>b. has_clip w c' = Some (Inr b, w) \<and> has_clip w' c' = Some (Inr b, w'))
          \<and> (if reaches_dataset clips c t arr
              then (c, t) \<notin> listed w \<and> listed w' = insert (c, t) (listed w)
                 \<and> (\<exists>clips' node d. backing w' = H5 (Some clips') \<and> map_of clips' c = Some node
                       \<and> map_of (members node) t = Some d
                       \<and> dshape d = shape arr \<and> ddata d = elems arr)
              else w' = w))
       \<and> (\<forall>c trk ov e w'. link_name c \<and> create_clip w c trk ov = Some (Inl e, w') \<longrightarrow>
            (if \<not> ov \<and> contains clips c then w' = w
             else (\<exists>clips' node. backing w' = H5 (Some clips') \<and> map_of clips' c = Some node
                     \<and> members node = [] \<and> \<not> contains (gattrs node) ''finished''
                     \<and> (\<forall>c'. c' \<noteq> c \<longrightarrow> map_of clips' c' = map_of clips c'))
                \<and> has_clip w' c = Some (Inr False, w')
                \<and> listed w' = listed w - {c} \<times> UNIV)
          \<and> (\<forall>c'. c' \<noteq> c \<longrightarrow>
               (\<exists>b. has_clip w c' = Some (Inr b, w) \<and> has_clip w' c' = Some (Inr b, w'))))"
proof (intro conjI allI impI)
  fix c t arr tr e w' c'
  assume "link_name c \<and> link_name t \<and> add_track w c t arr tr = Some (Inl e, w')"
  then have fail: "add_track w c t arr tr = Some (Inl e, w')" by simp
  from add_track_failure[OF assms fail]
  show "\<exists>b. has_clip w c' = Some (Inr b, w) \<and> has_clip w' c' = Some (Inr b, w')"
  proof
    assume "w' = w"
    then show ?thesis using has_clip_H5[OF assms] by simp
  next
    assume "\<exists>node a. map_of clips c = Some node \<and> map_of (members node) t = None
           \<and> w' = w\<lparr>backing := H5 (Some (AList.update c (with_track node t arr a) clips))\<rparr>"
    then obtain node a where node: "map_of clips c = Some node"
      and w': "w' = w\<lparr>backing := H5 (Some (AList.update c (with_track node t arr a) clips))\<rparr>"
      by blast
    have l: "\<not> hdf5_lock w'"
      and b: "backing w' = H5 (Some (AList.update c (with_track node t arr a) clips))"
      using assms(1) by (simp_all add: w')
    have "map_option gattrs (map_of (AList.update c (with_track node t arr a) clips) c')
          = map_option gattrs (map_of clips c')"
      using node by (simp add: AList.update_conv' with_track_def)
    from has_clip_same_attrs[OF assms l b this] show ?thesis .
  qed
next
  fix c t arr tr e w'
  assume "link_name c \<and> link_name t \<and> add_track w c t arr tr = Some (Inl e, w')"
  then have fail: "add_track w c t arr tr = Some (Inl e, w')" by simp
  show "if reaches_dataset clips c t arr
        then (c, t) \<notin> listed w \<and> listed w' = insert (c, t) (listed w)
           \<and> (\<exists>clips' node d. backing w' = H5 (Some clips') \<and> map_of clips' c = Some node
                 \<and> map_of (members node) t = Some d
                 \<and> dshape d = shape arr \<and> ddata d = elems arr)
        else w' = w"
  proof (cases "reaches_dataset clips c t arr")
    case False
    with add_track_failure_exact[OF assms fail] show ?thesis by simp
  next
    case True
    with add_track_failure_exact[OF assms fail] obtain node a where
      node: "map_of clips c = Some node" and free: "map_of (members node) t = None"
      and w': "w' = w\<lparr>backing := H5 (Some (AList.update c (with_track node t arr a) clips))\<rparr>"
      by auto
    let ?clips = "AList.update c (with_track node t arr a) clips"
    let ?d = "\<lparr>dshape = shape arr, ddata = elems arr, dattrs = a\<rparr>"
    have l: "\<not> hdf5_lock w'" and b: "backing w' = H5 (Some ?clips)"
      using assms(1) by (simp_all add: w')
    have notin: "(c, t) \<notin> listed w"
      using node free by (simp add: listed_H5[OF assms] stored_pairs_def contains_def)
    have ins: "listed w' = insert (c, t) (listed w)"
      by (simp add: listed_H5[OF l b] listed_H5[OF assms] stored_pairs_with_track[OF node free])
    have n: "map_of ?clips c = Some (with_track node t arr a)"
      by (simp add: AList.update_conv')
    have d: "map_of (members (with_track node t arr a)) t = Some ?d"
      using free by (rule map_of_with_track)
    have "\<exists>clips' node d. backing w' = H5 (Some clips') \<and> map_of clips' c = Some node
                 \<and> map_of (members node) t = Some d
                 \<and> dshape d = shape arr \<and> ddata d = elems arr"
      using b n d by (intro exI[of _ ?clips] exI[of _ "with_track node t arr a"] exI[of _ ?d]) simp
    with True notin ins show ?thesis by simp
  qed
next
  fix c trk ov e w'
  assume "link_name c \<and> create_clip w c trk ov = Some (Inl e, w')"
  then have fail: "create_clip w c trk ov = Some (Inl e, w')" by simp
  show "if \<not> ov \<and> contains clips c then w' = w
        else (\<exists>clips' node. backing w' = H5 (Some clips') \<and> map_of clips' c = Some node
                \<and> members node = [] \<and> \<not> contains (gattrs node) ''finished''
                \<and> (\<forall>c'. c' \<noteq> c \<longrightarrow> map_of clips' c' = map_of clips c'))
           \<and> has_clip w' c = Some (Inr False, w')
           \<and> listed w' = listed w - {c} \<times> UNIV"
  proof (cases "\<not> ov \<and> contains clips c")
    case True
    with fail assms show ?thesis
      by (auto simp: create_clip_H5 create_clip_body_general)
  next
    case False
    let ?node = "snd (new_clip trk)"
    let ?clips = "AList.delete c clips @ [(c, ?node)]"
    from False have cond: "(\<not> ov \<and> contains clips c) = False" by simp
    from fail assms have e: "fst (new_clip trk) = Inl e"
      and w': "w' = w\<lparr>backing := H5 (Some ?clips)\<rparr>"
      by (auto simp: create_clip_H5 create_clip_body_general cond)
    have l: "\<not> hdf5_lock w'" and b: "backing w' = H5 (Some ?clips)"
      using assms(1) by (simp_all add: w')
    have m: "map_of ?clips = (map_of clips)(c \<mapsto> ?node)" by (rule map_of_replaced)
    have unfin: "\<not> contains (gattrs ?node) ''finished''" by (rule new_clip_unfinished[OF e])
    have h: "has_clip w' c = Some (Inr False, w')"
      unfolding has_clip_H5[OF l b] m using unfin by simp
    have li: "listed w' = listed w - {c} \<times> UNIV"
      by (simp add: listed_H5[OF l b] listed_H5[OF assms]
          stored_pairs_replaced[OF new_clip_members])
    have "\<exists>clips' node. backing w' = H5 (Some clips') \<and> map_of clips' c = Some node
                \<and> members node = [] \<and> \<not> contains (gattrs node) ''finished''
                \<and> (\<forall>c'. c' \<noteq> c \<longrightarrow> map_of clips' c' = map_of clips c')"
      using b unfin new_clip_members[of trk]
      by (intro exI[of _ ?clips] exI[of _ ?node]) (simp add: m del: map_of_append)
    with False h li show ?thesis by auto
  qed
next
  fix c trk ov e w' c'
  assume "link_name c \<and> create_clip w c trk ov = Some (Inl e, w')" and ne: "c' \<noteq> c"
  then have fail: "create_clip w c trk ov = Some (Inl e, w')" by simp
  show "\<exists>b. has_clip w c' = Some (Inr b, w) \<and> has_clip w' c' = Some (Inr b, w')"
  proof (cases "\<not> ov \<and> contains clips c")
    case True
    with fail assms have "w' = w"
      by (auto simp: create_clip_H5 create_clip_body_general)
    then show ?thesis using has_clip_H5[OF assms] by simp
  next
    case False
    with fail assms
    have w': "w' = w\<lparr>backing := H5 (Some (AList.delete c clips @ [(c, snd (new_clip trk))]))\<rparr>"
      by (simp_all add: create_clip_H5 create_clip_body_general)
    have l: "\<not> hdf5_lock w'"
      and b: "backing w' = H5 (Some (AList.delete c clips @ [(c, snd (new_clip trk))]))"
      using assms(1) by (simp_all add: w')
    have "map_option gattrs (map_of (AList.delete c clips @ [(c, snd (new_clip trk))]) c')
          = map_option gattrs (map_of clips c')"
      unfolding map_of_replaced using ne by simp
    from has_clip_same_attrs[OF assms l b this] show ?thesis .
  qed
qed

theorem failed_write_finished_marker_witness:
  "link_name ''clip'' \<and> link_name ''7''
   \<and> add_track one_clip_db ''clip'' ''7'' frames9 (Some bad_track) = Some (Inl AttributeError, half_track_db)
   \<and> has_clip one_clip_db ''clip'' = Some (Inr True, one_clip_db)
   \<and> has_clip half_track_db ''clip'' = Some (Inr True, half_track_db)
   \<and> listed one_clip_db = {} \<and> listed half_track_db = {(''clip'', ''7'')}
   \<and> create_clip one_track_db ''clip'' (Some bad_tracker) True = Some (Inl AttributeError, unfinished_db)
   \<and> has_clip unfinished_db ''clip'' = Some (Inr False, unfinished_db)
   \<and> listed one_track_db = {(''clip'', ''7'')} \<and> listed unfinished_db = {}"
proof -
  have ln: "link_name ''clip''" "link_name ''7''"
    by (simp_all add: link_name_def)
  have reach: "reaches_dataset [(''clip'', \<lparr>gattrs = [(''finished'', finished_attr)], members = []\<rparr>)]
                 ''clip'' ''7'' frames9"
    by (simp add: reaches_dataset_def frames9_def chunks_ok_def contains_def)
  have l0: "listed one_clip_db = {}" and l1: "listed one_track_db = {(''clip'', ''7'')}"
    by (simp_all add: listed_def example_listings)
  from failed_write_finished_marker[OF example_locks(2) example_backings(2)] ln half_track_db_left
  have a: "(\<forall>c'. \<exists>b. has_clip one_clip_db c' = Some (Inr b, one_clip_db)
                    \<and> has_clip half_track_db c' = Some (Inr b, half_track_db))
         \<and> (if reaches_dataset [(''clip'', \<lparr>gattrs = [(''finished'', finished_attr)], members = []\<rparr>)]
                 ''clip'' ''7'' frames9
             then (''clip'', ''7'') \<notin> listed one_clip_db
                \<and> listed half_track_db = insert (''clip'', ''7'') (listed one_clip_db)
                \<and> (\<exists>clips' node d. backing half_track_db = H5 (Some clips')
                      \<and> map_of clips' ''clip'' = Some node \<and> map_of (members node) ''7'' = Some d
                      \<and> dshape d = shape frames9 \<and> ddata d = elems frames9)
             else half_track_db = one_clip_db)"
    by blast
  then have "\<exists>b. has_clip one_clip_db ''clip'' = Some (Inr b, one_clip_db)
                \<and> has_clip half_track_db ''clip'' = Some (Inr b, half_track_db)"
    by blast
  then have h: "has_clip half_track_db ''clip'' = Some (Inr True, half_track_db)"
    by (auto simp: example_has_clip(1))
  from a reach have lh: "listed half_track_db = {(''clip'', ''7'')}"
    by (simp add: l0)
  from failed_write_finished_marker[OF example_locks(3) example_backings(3)] ln(1) unfinished_db_left
  have "if \<not> True \<and> contains [(''clip'', \<lparr>gattrs = [(''finished'', finished_attr)],
              members = [(''7'', \<lparr>dshape = [9, 1, 1, 1], ddata = elems frames9, dattrs = []\<rparr>)]\<rparr>)] ''clip''
        then unfinished_db = one_track_db
        else (\<exists>clips' node. backing unfinished_db = H5 (Some clips') \<and> map_of clips' ''clip'' = Some node
                \<and> members node = [] \<and> \<not> contains (gattrs node) ''finished''
                \<and> (\<forall>c'. c' \<noteq> ''clip'' \<longrightarrow> map_of clips' c' = map_of
                      [(''clip'', \<lparr>gattrs = [(''finished'', finished_attr)],
                         members = [(''7'', \<lparr>dshape = [9, 1, 1, 1], ddata = elems frames9, dattrs = []\<rparr>)]\<rparr>)] c'))
           \<and> has_clip unfinished_db ''clip'' = Some (Inr False, unfinished_db)
           \<and> listed unfinished_db = listed one_track_db - {''clip''} \<times> UNIV"
    by blast
  then have u: "has_clip unfinished_db ''clip'' = Some (Inr False, unfinished_db)"
    and lu: "listed unfinished_db = {}"
    by (simp_all add: l1)
  from ln half_track_db_left example_has_clip(1) h l0 lh unfinished_db_left u l1 lu
  show ?thesis by simp
qed

theorem failed_create_clip_counterexample:
  "has_clip one_track_db ''clip'' = Some (Inr True, one_track_db)
   \<and> get_all_track_ids one_track_db = Some (Inr [(''clip'', ''7'')], one_track_db)
   \<and> create_clip one_track_db ''clip'' (Some bad_tracker) True = Some (Inl AttributeError, unfinished_db)
   \<and> has_clip unfinished_db ''clip'' = Some (Inr False, unfinished_db)
   \<and> get_all_track_ids unfinished_db = Some (Inr [], unfinished_db)"
  by (simp add: example_has_clip example_listings unfinished_db_left)

text \<open>
  C4. \<open>create_clip c\<close> with \<open>overwrite\<close> True, whatever its outcome, leaves under
  \<open>c\<close> exactly the node the same call leaves in an empty database: it has no tracks,
  so no pair \<open>(c, t)\<close> is listed afterwards, and nothing of an earlier node is merged
  in. Every other clip is as before.
\<close>

theorem create_clip_overwrite_replaces:
  assumes "\<not> hdf5_lock w" and "backing w = H5 (Some clips)"
    and "create_clip w c tr True = Some (r, w')"
  shows "\<exists>clips' node L.
           backing w' = H5 (Some clips') \<and> map_of clips' c = Some node \<and> members node = []
         \<and> create_clip (w\<lparr>backing := H5 (Some [])\<rparr>) c tr True
             = Some (r, w\<lparr>backing := H5 (Some [(c, node)])\<rparr>)
         \<and> (\<forall>c'. c' \<noteq> c \<longrightarrow> map_of clips' c' = map_of clips c')
         \<and> get_all_track_ids w' = Some (Inr L, w') \<and> (\<forall>t. (c, t) \<notin> set L)"
proof -
  let ?node = "snd (new_clip tr)"
  let ?clips' = "AList.delete c clips @ [(c, ?node)]"
  from assms(3) create_clip_overwrite_world[OF assms(1,2), of c tr]
  have r: "r = fst (new_clip tr)" and w': "w' = w\<lparr>backing := H5 (Some ?clips')\<rparr>"
    by simp_all
  have b: "backing w' = H5 (Some ?clips')" and l: "\<not> hdf5_lock w'"
    using assms(1) by (simp_all add: w')
  have m: "map_of ?clips' = (map_of clips)(c \<mapsto> ?node)" by (rule map_of_replaced)
  have e: "create_clip (w\<lparr>backing := H5 (Some [])\<rparr>) c tr True
           = Some (r, w\<lparr>backing := H5 (Some [(c, ?node)])\<rparr>)"
    using create_clip_overwrite_world[of "w\<lparr>backing := H5 (Some [])\<rparr>" "[]" c tr] assms(1)
    by (simp add: r)
  obtain L where L: "get_all_track_ids_body (Some ?clips') = Inr L"
    using listing_total by blast
  have g: "get_all_track_ids w' = Some (Inr L, w')"
    by (simp add: get_all_track_ids_def reading_H5[OF l b] L)
  have n: "(c, t) \<notin> set L" for t
  proof -
    have "(c, t) \<in> set L \<longleftrightarrow>
          (\<exists>node. map_of ?clips' c = Some node \<and> contains (members node) t)"
      by (rule listing_mem[OF L])
    then show ?thesis unfolding m by (simp add: new_clip_members contains_def)
  qed
  show ?thesis
    using b m e g n new_clip_members by (intro exI[of _ ?clips'] exI[of _ ?node] exI[of _ L]) simp
qed

theorem create_clip_overwrite_replaces_witness:
  "create_clip one_track_db ''clip'' None True = Some (Inr (), one_clip_db)
   \<and> get_all_track_ids one_track_db = Some (Inr [(''clip'', ''7'')], one_track_db)
   \<and> get_all_track_ids one_clip_db = Some (Inr [], one_clip_db)"
  using create_clip_overwrite_replaces[OF example_locks(3) example_backings(3) one_clip_db_recreated]
    one_clip_db_recreated example_listings(1,2)
  by simp

text \<open>
  C5 (as amended). For a link name \<open>c\<close>: after \<open>create_clip c\<close> with no tracker,
  \<open>has_clip c\<close> is True and \<open>get_clip_meta c\<close> returns the finished marker and nothing
  else. The defaults (confidence 0.0, trap and event the empty string, background delta
  and mean, max and min temperature 0) are what \<open>create_clip\<close> stores when a tracker
  is supplied whose \<^verbatim>\<open>stats\<close> has none of these keys and whose file name, start time and
  threshold are values h5py stores. After any successful \<open>create_clip c\<close>,
  \<open>has_clip c\<close> is True and no attribute of \<open>c\<close> is None.
\<close>

theorem create_clip_metadata:
  assumes "\<not> hdf5_lock w" and "backing w = H5 (Some clips)" and "link_name c"
  shows "(\<exists>w'. create_clip w c None True = Some (Inr (), w')
            \<and> has_clip w' c = Some (Inr True, w')
            \<and> get_clip_meta w' c = Some (Inr [(''finished'', finished_attr)], w'))
       \<and> (\<forall>(trk :: tracker) s. refusal (source_file trk) = None
              \<and> video_start_time trk = Some (Datetime s) \<and> refusal (PStr s) = None
              \<and> refusal (threshold trk) = None
              \<and> list_all (\<lambda>k. map_of (stats trk) k = None) default_keys \<longrightarrow>
            (\<exists>w'. create_clip w c (Some trk) True = Some (Inr (), w')
               \<and> has_clip w' c = Some (Inr True, w')
               \<and> get_clip_meta w' c = Some (Inr (default_meta trk s), w')))
       \<and> (\<forall>trk ov w'. create_clip w c trk ov = Some (Inr (), w') \<longrightarrow>
            (\<exists>meta. has_clip w' c = Some (Inr True, w')
               \<and> get_clip_meta w' c = Some (Inr meta, w') \<and> no_null meta))"
proof (intro conjI allI impI)
  let ?w' = "\<lambda>trk. w\<lparr>backing := H5 (Some (AList.delete c clips @ [(c, snd (new_clip trk))]))\<rparr>"
  have ok: "fst (new_clip None) = Inr ()" by (simp add: new_clip_None)
  have "create_clip w c None True = Some (Inr (), ?w' None)"
    by (simp add: create_clip_overwrite_world[OF assms(1,2)] new_clip_None)
  with created_clip_meta[OF assms(1,2) ok refl, of c]
  show "\<exists>w'. create_clip w c None True = Some (Inr (), w')
            \<and> has_clip w' c = Some (Inr True, w')
            \<and> get_clip_meta w' c = Some (Inr [(''finished'', finished_attr)], w')"
    by (simp add: new_clip_None items_def)
next
  fix trk :: tracker and s
  assume a: "refusal (source_file trk) = None
              \<and> video_start_time trk = Some (Datetime s) \<and> refusal (PStr s) = None
              \<and> refusal (threshold trk) = None
              \<and> list_all (\<lambda>k. map_of (stats trk) k = None) default_keys"
  let ?w' = "w\<lparr>backing := H5 (Some (AList.delete c clips @ [(c, snd (new_clip (Some trk)))]))\<rparr>"
  from a have ok: "fst (new_clip (Some trk)) = Inr ()"
    and meta: "items (gattrs (snd (new_clip (Some trk)))) = default_meta trk s"
    by (simp_all add: new_clip_defaults)
  have "create_clip w c (Some trk) True = Some (Inr (), ?w')"
    using ok by (simp add: create_clip_overwrite_world[OF assms(1,2)])
  with created_clip_meta[OF assms(1,2) ok refl, of c]
  show "\<exists>w'. create_clip w c (Some trk) True = Some (Inr (), w')
               \<and> has_clip w' c = Some (Inr True, w')
               \<and> get_clip_meta w' c = Some (Inr (default_meta trk s), w')"
    by (simp add: meta)
next
  fix trk ov w'
  assume ok: "create_clip w c trk ov = Some (Inr (), w')"
  then have r: "fst (new_clip trk) = Inr ()"
    and w': "w' = w\<lparr>backing := H5 (Some (AList.delete c clips @ [(c, snd (new_clip trk))]))\<rparr>"
    using assms(1,2) by (auto simp: create_clip_H5 create_clip_body_general split: if_splits)
  have "no_null (items (gattrs (snd (new_clip trk))))"
    using new_clip_no_null[of trk] by (simp add: no_null_def items_def)
  with created_clip_meta[OF assms(1,2) r w']
  show "\<exists>meta. has_clip w' c = Some (Inr True, w')
               \<and> get_clip_meta w' c = Some (Inr meta, w') \<and> no_null meta"
    by blast
qed

theorem create_clip_metadata_witness:
  "link_name ''clip''
   \<and> create_clip empty_db ''clip'' (Some plain_tracker) True = Some (Inr (), plain_clip_db)
   \<and> has_clip plain_clip_db ''clip'' = Some (Inr True, plain_clip_db)
   \<and> get_clip_meta plain_clip_db ''clip''
       = Some (Inr (default_meta plain_tracker ''2017-11-01T15:08:43''), plain_clip_db)"
proof -
  have ln: "link_name ''clip''" by (simp add: link_name_def)
  have "refusal (source_file plain_tracker) = None
        \<and> video_start_time plain_tracker = Some (Datetime ''2017-11-01T15:08:43'')
        \<and> refusal (PStr ''2017-11-01T15:08:43'') = None
        \<and> refusal (threshold plain_tracker) = None
        \<and> list_all (\<lambda>k. map_of (stats plain_tracker) k = None) default_keys"
    by (simp add: plain_tracker_def default_keys_def)
  with create_clip_metadata[OF example_locks(1) example_backings(1) ln]
  have "\<exists>w'. create_clip empty_db ''clip'' (Some plain_tracker) True = Some (Inr (), w')
          \<and> has_clip w' ''clip'' = Some (Inr True, w')
          \<and> get_clip_meta w' ''clip''
              = Some (Inr (default_meta plain_tracker ''2017-11-01T15:08:43''), w')"
    by blast
  then show ?thesis using ln by (auto simp: plain_clip_db_created)
qed

theorem create_clip_metadata_counterexample:
  "create_clip empty_db ''clip'' None True = Some (Inr (), one_clip_db)
   \<and> get_clip_meta one_clip_db ''clip'' = Some (Inr [(''finished'', Scalar (PBool True))], one_clip_db)
   \<and> map_of [(''finished'', Scalar (PBool True))] ''confidence'' = None"
  by (simp add: one_clip_db_created)
     (simp add: one_clip_db_def get_clip_meta_def session_defs body_defs)

text \<open>
  C6 (as amended). After a successful \<open>add_track\<close> with a track record, the stored
  \<^verbatim>\<open>mass_history\<close> is an int32 array and the stored \<^verbatim>\<open>bounds_history\<close> an int16 array
  of rows of 4, each with as many entries as the record's \<^verbatim>\<open>bounds_history\<close>; that is
  the frame count of the array exactly when the record has one entry per frame, which
  \<open>add_track\<close> does not check.
\<close>

theorem add_track_history_lengths:
  assumes "\<not> hdf5_lock w" and "backing w = H5 (Some clips)"
    and "add_track w c t arr (Some tr) = Some (Inr (), w')"
  shows "\<exists>meta ms bs.
           get_track_meta w' c t = Some (Inr meta, w')
         \<and> map_of meta ''mass_history'' = Some (Int32Array ms)
         \<and> map_of meta ''bounds_history'' = Some (Int16Array bs)
         \<and> length ms = length (bounds_history tr) \<and> length bs = length (bounds_history tr)
         \<and> list_all (\<lambda>row. length row = 4) bs
         \<and> (length ms = hd (shape arr)) = (length (bounds_history tr) = hd (shape arr))"
proof -
  from add_track_success[OF assms] obtain node a where
    free: "map_of (members node) t = None"
    and attrs: "new_track_attrs (Some tr) = (None, a)"
    and w': "w' = w\<lparr>backing := H5 (Some (AList.update c (finish (with_track node t arr a)) clips))\<rparr>"
    by blast
  let ?node = "finish (with_track node t arr a)"
  let ?clips = "AList.update c ?node clips"
  let ?ms = "map word_of_int (map mass_b (bounds_history tr)) :: 32 word list"
  let ?bs = "map (map word_of_int)
               (map (\<lambda>b. [left_b b, top_b b, right_b b, bottom_b b]) (bounds_history tr))
             :: 16 word list list"
  have b: "backing w' = H5 (Some ?clips)" and l: "\<not> hdf5_lock w'"
    using assms(1) by (simp_all add: w')
  have n: "map_of ?clips c = Some ?node" by (simp add: AList.update_conv')
  have d: "map_of (members ?node) t = Some \<lparr>dshape = shape arr, ddata = elems arr, dattrs = a\<rparr>"
    using free by (simp add: members_finish map_of_with_track)
  from track_attrs_history[OF attrs] have dist: "distinct (map fst a)"
    and m: "map_of a ''mass_history'' = Some (Int32Array ?ms)"
    and h: "map_of a ''bounds_history'' = Some (Int16Array ?bs)"
    by simp_all
  have body: "get_track_meta_body c t (Some ?clips) = Inr (items a)"
    using n d by (simp add: get_track_meta_body_def getitem_clips_def getitem_def
        items_dict_distinct[OF dist])
  have g: "get_track_meta w' c t = Some (Inr (items a), w')"
    by (simp add: get_track_meta_def reading_H5[OF l b] body)
  have rows: "list_all (\<lambda>row. length row = 4) ?bs"
    by (simp add: list_all_iff)
  show ?thesis
    using g m h rows
    by (intro exI[of _ "items a"] exI[of _ ?ms] exI[of _ ?bs]) (simp add: map_of_items[OF dist])
qed

theorem add_track_history_lengths_witness:
  "add_track one_clip_db ''clip'' ''7'' frames9 (Some full_track) = Some (Inr (), full_track_db)
   \<and> hd (shape frames9) = 9 \<and> length (bounds_history full_track) = 9
   \<and> (\<exists>meta ms bs.
         get_track_meta full_track_db ''clip'' ''7'' = Some (Inr meta, full_track_db)
       \<and> map_of meta ''mass_history'' = Some (Int32Array ms)
       \<and> map_of meta ''bounds_history'' = Some (Int16Array bs)
       \<and> length ms = 9 \<and> length bs = 9 \<and> list_all (\<lambda>row. length row = 4) bs)"
proof -
  have n: "hd (shape frames9) = 9" "length (bounds_history full_track) = 9"
    by (simp_all add: frames9_def full_track_def)
  from add_track_history_lengths[OF example_locks(2) example_backings(2) full_track_db_created]
  obtain meta ms bs where
    "get_track_meta full_track_db ''clip'' ''7'' = Some (Inr meta, full_track_db)"
    "map_of meta ''mass_history'' = Some (Int32Array ms)"
    "map_of meta ''bounds_history'' = Some (Int16Array bs)"
    "length ms = length (bounds_history full_track)"
    "length bs = length (bounds_history full_track)"
    "list_all (\<lambda>row. length row = 4) bs"
    by blast
  then show ?thesis
    using full_track_db_created n by auto
qed

theorem add_track_history_lengths_counterexample:
  "add_track one_clip_db ''clip'' ''7'' frames9 (Some short_track) = Some (Inr (), short_track_db)
   \<and> hd (shape frames9) = 9
   \<and> get_track_meta short_track_db ''clip'' ''7''
       = Some (Inr [(''bounds_history'', Int16Array [[1, 2, 3, 4]]),
                    (''end_time'', Scalar (PStr ''2017-11-01T15:08:44'')),
                    (''id'', Scalar (PInt 7)),
                    (''mass_history'', Int32Array [5]),
                    (''start_time'', Scalar (PStr ''2017-11-01T15:08:43'')),
                    (''tag'', Scalar (PStr ''possum''))], short_track_db)"
  by (simp add: short_track_db_created)
     (simp add: frames9_def short_track_db_def get_track_meta_def session_defs body_defs)




text \<open>
  C8 (as amended). \<open>create_clip c\<close> with \<open>overwrite\<close> False on an id whose node exists
  raises ValueError (h5py refuses to create a group under a name that is taken) and
  leaves the store as it was: the node, its attributes and every track under it.
\<close>

theorem create_clip_no_overwrite_raises:
  assumes "\<not> hdf5_lock w" and "backing w = H5 (Some clips)" and "c \<in> fst ` set clips"
  shows "create_clip w c tr False = Some (Inl ValueError, w)"
proof -
  from assms(3) have "contains clips c" by (simp add: contains_iff)
  then have "create_clip_body c tr False (Some clips) = (Inl ValueError, Some clips)"
    by (rule create_clip_body_exists)
  with assms(1,2) show ?thesis
    by (simp add: create_clip_H5)
qed

theorem create_clip_no_overwrite_raises_witness:
  "create_clip one_track_db ''clip'' (Some plain_tracker) False = Some (Inl ValueError, one_track_db)"
  using create_clip_no_overwrite_raises[OF example_locks(3) example_backings(3),
      of "''clip''" "Some plain_tracker"]
  by simp

theorem create_clip_no_overwrite_counterexample:
  "create_clip empty_db ''clip'' None True = Some (Inr (), one_clip_db)
   \<and> create_clip one_clip_db ''clip'' None False = Some (Inl ValueError, one_clip_db)"
  by (simp add: one_clip_db_created)
     (simp add: one_clip_db_def create_clip_def session_defs body_defs)

text \<open>
  C9. A store operation acquires the lock and then opens the file; when opening raises
  (the path holds a file that is not HDF5, or nothing in read mode), the exception leaves
  \<^verbatim>\<open>__enter__\<close>, \<^verbatim>\<open>__exit__\<close> never runs and the lock stays held: the next operation
  never returns.
\<close>

theorem lock_not_released_when_open_fails:
  "has_clip \<lparr>hdf5_lock = False, backing = NotHDF5\<rparr> ''clip''
     = Some (Inl OSError, \<lparr>hdf5_lock = True, backing = NotHDF5\<rparr>)
   \<and> has_clip \<lparr>hdf5_lock = True, backing = NotHDF5\<rparr> ''clip'' = None
   \<and> TrackDatabase \<lparr>hdf5_lock = False, backing = NotHDF5\<rparr> = \<lparr>hdf5_lock = False, backing = NotHDF5\<rparr>"
  by (simp add: has_clip_def HDF5Manager_def TrackDatabase_def)

text \<open>
  C10. \<open>has_clip\<close>, \<open>get_all_track_ids\<close>, \<open>get_clip_meta\<close>, \<open>get_track_meta\<close> and
  \<open>get_track\<close> open the file in mode \<^verbatim>\<open>'r'\<close>; each returns, with a value or an error,
  and leaves what the database path holds as it was.
\<close>

theorem queries_unchanged:
  assumes "\<not> hdf5_lock w"
  shows "(\<exists>r w'. has_clip w c = Some (r, w') \<and> backing w' = backing w)
       \<and> (\<exists>r w'. get_all_track_ids w = Some (r, w') \<and> backing w' = backing w)
       \<and> (\<exists>r w'. get_clip_meta w c = Some (r, w') \<and> backing w' = backing w)
       \<and> (\<exists>r w'. get_track_meta w c t = Some (r, w') \<and> backing w' = backing w)
       \<and> (\<exists>r w'. get_track w c t s e = Some (r, w') \<and> backing w' = backing w)"
  unfolding has_clip_def get_all_track_ids_def get_clip_meta_def get_track_meta_def get_track_def
  by (intro conjI HDF5Manager_reading[OF assms])

theorem queries_unchanged_witness:
  "\<not> hdf5_lock one_track_db
   \<and> has_clip one_track_db ''clip'' = Some (Inr True, one_track_db)
   \<and> get_all_track_ids one_track_db = Some (Inr [(''clip'', ''7'')], one_track_db)
   \<and> get_clip_meta one_track_db ''clip'' = Some (Inr [(''finished'', finished_attr)], one_track_db)
   \<and> get_track_meta one_track_db ''clip'' ''7'' = Some (Inr [], one_track_db)
   \<and> get_track one_track_db ''none'' ''7'' None None = Some (Inl KeyError, one_track_db)"
  using queries_unchanged[OF example_locks(3), of "''clip''" "''7''" None None]
  by (simp add: one_track_db_def has_clip_def get_all_track_ids_def get_clip_meta_def
      get_track_meta_def get_track_def session_defs body_defs)

end
